theory Spec2Isabelle
  imports Main "HOL-Library.Sublist" "HOL-Library.Multiset" "HOL-Library.Word"
begin

section \<open>Strings, JSON values and the JavaScript coercions the handlers apply\<close>

text \<open>
  A string is the list of its Unicode code points, so that one element is one character
  for \<open>String.prototype.trim\<close> and for PostgreSQL's \<open>like\<close> and \<open>lower\<close> alike. A
  surrogate code point in the list is a lone surrogate of the JavaScript string. \<open>str\<close>
  writes a literal of the source.
\<close>

type_synonym ustring = "nat list"

definition str :: "string \<Rightarrow> ustring" where
  "str s = map of_char s"

text \<open>
  \<open>express.json()\<close> and the query-string parser hand the handlers JSON values.
  A number is kept as its canonical rendering \<open>String(n)\<close>, so that no floating
  point arithmetic is needed: the only things the handlers do with a number are to test
  its truthiness (\<open>0\<close> and \<open>-0\<close> both render as \<open>0\<close>) and to turn it into text.
  A value of type \<open>json option\<close> is a JavaScript value where \<open>None\<close> is
  \<open>undefined\<close>.
\<close>

datatype json =
    JNull
  | JBool bool
  | JNum ustring
  | JStr ustring
  | JArr "json list"
  | JObj "(ustring \<times> json) list"

text \<open>
  What a handler can find thrown: a \<open>TypeError\<close> of its own expressions, or an error of
  the store. \<open>data_exception\<close> is PostgreSQL's class 22: a parameter that cannot be read
  as a value of its type (\<open>invalid_text_representation\<close>,
  \<open>numeric_value_out_of_range\<close>, \<open>character_not_in_repertoire\<close>) and a sequence
  that has reached its maximum. The other two are the constraints of the table.
\<close>

datatype pg_error =
    data_exception
  | not_null_violation
  | unique_violation

datatype exn =
    TypeError
  | DatabaseError pg_error

fun truthy :: "json option \<Rightarrow> bool" where
  "truthy None = False"
| "truthy (Some JNull) = False"
| "truthy (Some (JBool b)) = b"
| "truthy (Some (JNum s)) = (s \<noteq> str ''0'')"
| "truthy (Some (JStr s)) = (s \<noteq> [])"
| "truthy (Some (JArr xs)) = True"
| "truthy (Some (JObj fs)) = True"

text \<open>The operator \<open>a || b\<close>.\<close>

definition js_or :: "json option \<Rightarrow> json option \<Rightarrow> json option" where
  "js_or a b = (if truthy a then a else b)"

text \<open>
  \<open>v.toString()\<close> for a value that came out of a JSON parser. \<open>None\<close> is a thrown
  \<open>TypeError\<close>: calling the method on \<open>null\<close>, or on an object whose own property
  \<open>toString\<close> hides \<open>Object.prototype.toString\<close> (a parsed JSON value is never
  callable). An array joins the renderings of its elements with commas, where a
  \<open>null\<close> element renders as the empty string.
\<close>

fun toString :: "json \<Rightarrow> ustring option"
  and join :: "json list \<Rightarrow> ustring option" where
  "toString JNull = None"
| "toString (JBool b) = Some (if b then str ''true'' else str ''false'')"
| "toString (JNum s) = Some s"
| "toString (JStr s) = Some s"
| "toString (JArr xs) = join xs"
| "toString (JObj fs) =
     (if str ''toString'' \<in> set (map fst fs) then None else Some (str ''[object Object]''))"
| "join [] = Some []"
| "join (x # xs) =
     (case (if x = JNull then Some [] else toString x) of
        None \<Rightarrow> None
      | Some s \<Rightarrow>
          (if xs = [] then Some s
           else (case join xs of None \<Rightarrow> None | Some t \<Rightarrow> Some (s @ str '','' @ t))))"

text \<open>
  \<open>String.prototype.trim\<close> strips the white space and the line terminators of
  ECMAScript from both ends: tab, line feed, vertical tab, form feed, carriage return,
  space, U+00A0, U+1680, U+2000 to U+200A, U+2028, U+2029, U+202F, U+205F, U+3000 and
  U+FEFF.
\<close>

definition is_space :: "nat \<Rightarrow> bool" where
  "is_space c =
     (c \<in> set [0x09, 0x0A, 0x0B, 0x0C, 0x0D, 0x20, 0xA0, 0x1680, 0x2028, 0x2029, 0x202F,
               0x205F, 0x3000, 0xFEFF]
      \<or> (0x2000 \<le> c \<and> c \<le> 0x200A))"

definition trim :: "ustring \<Rightarrow> ustring" where
  "trim s = rev (dropWhile is_space (rev (dropWhile is_space s)))"

section \<open>The store: the table \<open>books\<close>\<close>

text \<open>
  The schema of \<open>ensureSchema\<close>. The column \<open>id\<close> is a 32-bit signed integer, read
  with \<open>sint\<close>. A nullable column is an \<open>option\<close>, \<open>None\<close> being SQL's \<open>NULL\<close>;
  \<open>title\<close> is \<open>not null\<close>. Instants are integers (milliseconds).
\<close>

type_synonym int4 = "32 word"

type_synonym timestamptz = int

record row =
  r_id :: int4
  r_title :: ustring
  r_author :: "ustring option"
  r_category :: "ustring option"
  r_description :: "ustring option"
  r_is_borrowed :: "bool option"
  r_borrower :: "ustring option"
  r_borrowed_at :: "timestamptz option"
  r_returned_at :: "timestamptz option"

text \<open>
  The table is the list of its rows, with the sequence behind \<open>id serial\<close>:
  \<open>books_id_seq\<close> is the value the next \<open>nextval\<close> returns.
\<close>

record store =
  books :: "row list"
  books_id_seq :: int

definition empty_catalog :: store where
  "empty_catalog = \<lparr>books = [], books_id_seq = 1\<rparr>"

text \<open>
  What node-postgres makes of a query parameter (\<open>prepareValue\<close>): \<open>undefined\<close>
  and \<open>null\<close> become \<open>NULL\<close>, a string, number or boolean its \<open>toString()\<close>.
  Arrays and objects are serialised by the driver (\<open>arrayString\<close>,
  \<open>JSON.stringify\<close>), which is not part of this repository: \<open>ser\<close> stands for it.
\<close>

fun prepareValue :: "(json \<Rightarrow> ustring) \<Rightarrow> json option \<Rightarrow> ustring option" where
  "prepareValue ser None = None"
| "prepareValue ser (Some JNull) = None"
| "prepareValue ser (Some (JBool b)) = Some (if b then str ''true'' else str ''false'')"
| "prepareValue ser (Some (JNum s)) = Some s"
| "prepareValue ser (Some (JStr s)) = Some s"
| "prepareValue ser (Some (JArr xs)) = Some (ser (JArr xs))"
| "prepareValue ser (Some (JObj fs)) = Some (ser (JObj fs))"

subsection \<open>Binding the parameters of a statement\<close>

text \<open>
  PostgreSQL reads the parameters of a statement when it binds them, before it runs the
  statement: an error there leaves the store, the sequence included, as it was.

  The driver sends a string in UTF-8, in which a lone surrogate becomes U+FFFD, and the
  store keeps text in UTF-8. A text parameter must not contain the character U+0000.
\<close>

definition utf8 :: "ustring \<Rightarrow> ustring" where
  "utf8 s = map (\<lambda>c. if 0xD800 \<le> c \<and> c \<le> 0xDFFF then 0xFFFD else c) s"

definition text_param :: "ustring \<Rightarrow> pg_error + ustring" where
  "text_param s = (if 0 \<in> set s then Inl data_exception else Inr (utf8 s))"

definition with_text ::
  "ustring option \<Rightarrow> (ustring option \<Rightarrow> (pg_error + 'a) \<times> store) \<Rightarrow> store
    \<Rightarrow> (pg_error + 'a) \<times> store" where
  "with_text v stmt db =
     (case v of
        None \<Rightarrow> stmt None
      | Some s \<Rightarrow>
          (case text_param s of
             Inl e \<Rightarrow> (Inl e, db)
           | Inr s' \<Rightarrow> stmt (Some s')))"

text \<open>
  The parameter \<open>$1\<close> that is compared with the column \<open>id\<close> must be an integer
  (\<open>None\<close> is a parameter that is not the text of one) in the range of the column, which
  is that of a 32-bit signed integer.
\<close>

definition in_int4 :: "int \<Rightarrow> bool" where
  "in_int4 i = (- 2147483648 \<le> i \<and> i \<le> 2147483647)"

definition with_id ::
  "int option \<Rightarrow> (int4 \<Rightarrow> (pg_error + 'a) \<times> store) \<Rightarrow> store \<Rightarrow> (pg_error + 'a) \<times> store" where
  "with_id p stmt db =
     (case p of
        None \<Rightarrow> (Inl data_exception, db)
      | Some i \<Rightarrow> if in_int4 i then stmt (word_of_int i) else (Inl data_exception, db))"

text \<open>A statement that ran: its result and the store it leaves.\<close>

definition executed :: "'a \<times> store \<Rightarrow> (pg_error + 'a) \<times> store" where
  "executed out = (Inr (fst out), snd out)"

subsection \<open>\<open>lower\<close> and \<open>like\<close>\<close>

text \<open>
  \<open>lower\<close> maps each character by itself. What it maps a character to depends on the
  locale of the database and is the parameter \<open>lc\<close>. The characters \<open>%\<close> (0x25),
  \<open>_\<close> (0x5F) and backslash (0x5C) are not letters and are the lower case of no other
  character in any locale: \<open>lower\<close> leaves them as they are and maps no other character
  to one of them, whatever \<open>lc\<close> is.
\<close>

definition like_special :: "nat \<Rightarrow> bool" where
  "like_special c = (c = 0x25 \<or> c = 0x5F \<or> c = 0x5C)"

definition lower_char :: "(nat \<Rightarrow> nat) \<Rightarrow> nat \<Rightarrow> nat" where
  "lower_char lc c = (if like_special c \<or> like_special (lc c) then c else lc c)"

definition lower :: "(nat \<Rightarrow> nat) \<Rightarrow> ustring \<Rightarrow> ustring" where
  "lower lc s = map (lower_char lc) s"

text \<open>
  \<open>s like p\<close>: in the pattern \<open>%\<close> matches any run of characters, \<open>_\<close> any one
  character, and a backslash makes the next character literal. PostgreSQL raises an error
  when matching reaches a backslash that ends the pattern; the pattern of the search handler
  always ends with \<open>%\<close> (lemma \<open>search_pattern_no_trailing_escape\<close>), and the case is
  \<open>False\<close> here.
\<close>

fun like :: "ustring \<Rightarrow> ustring \<Rightarrow> bool" where
  "like [] [] = True"
| "like (c # s) [] = False"
| "like s (p # ps) =
     (if p = 0x25 then
        (like s ps \<or> (case s of [] \<Rightarrow> False | c # s' \<Rightarrow> like s' (p # ps)))
      else if p = 0x5F then
        (case s of [] \<Rightarrow> False | c # s' \<Rightarrow> like s' ps)
      else if p = 0x5C then
        (case ps of
           [] \<Rightarrow> False
         | q # qs \<Rightarrow> (case s of [] \<Rightarrow> False | c # s' \<Rightarrow> c = q \<and> like s' qs))
      else
        (case s of [] \<Rightarrow> False | c # s' \<Rightarrow> c = p \<and> like s' ps))"

text \<open>
  A condition on a nullable column: \<open>lower(NULL) like p\<close> is \<open>NULL\<close>, and a row is
  selected only when the \<open>where\<close> clause is true, so in a disjunction a \<open>NULL\<close>
  operand counts as false.
\<close>

definition lower_like :: "(nat \<Rightarrow> nat) \<Rightarrow> ustring option \<Rightarrow> ustring \<Rightarrow> bool" where
  "lower_like lc col p =
     (case col of None \<Rightarrow> False | Some s \<Rightarrow> like (lower lc s) (lower lc p))"

fun trailing_escape :: "ustring \<Rightarrow> bool" where
  "trailing_escape [] = False"
| "trailing_escape [c] = (c = 0x5C)"
| "trailing_escape (c # d # s) = (if c = 0x5C then trailing_escape s else trailing_escape (d # s))"

subsection \<open>The statements\<close>

text \<open>\<open>select * from books order by id asc\<close>\<close>

definition select_all :: "store \<Rightarrow> row list" where
  "select_all db = sort_key (\<lambda>r. sint (r_id r)) (books db)"

text \<open>
  \<open>select * from books where lower(title) like lower($1) or lower(author) like lower($1)
  or lower(category) like lower($1) order by id asc\<close>
\<close>

definition select_like :: "(nat \<Rightarrow> nat) \<Rightarrow> ustring \<Rightarrow> store \<Rightarrow> (pg_error + row list) \<times> store" where
  "select_like lc p db =
     (case text_param p of
        Inl e \<Rightarrow> (Inl e, db)
      | Inr p' \<Rightarrow>
          (Inr (sort_key (\<lambda>r. sint (r_id r))
                  (filter (\<lambda>r. lower_like lc (Some (r_title r)) p' \<or> lower_like lc (r_author r) p'
                                 \<or> lower_like lc (r_category r) p')
                     (books db))),
           db))"

text \<open>
  \<open>insert into books (title, author, category, description, is_borrowed)
  values ($1, $2, $3, $4, false) returning *\<close> and, in the second file, the same without
  \<open>is_borrowed\<close>, whose column default is \<open>false\<close>. The statement inserts one
  row and returns it (\<open>rows[0]\<close>). The id is the next value of the sequence, whose maximum
  is that of the column; once a value is drawn the sequence has advanced, whether or not the
  row is accepted.
\<close>

definition insert_books ::
  "ustring option \<Rightarrow> ustring option \<Rightarrow> ustring option \<Rightarrow> ustring option \<Rightarrow> store
    \<Rightarrow> (pg_error + row) \<times> store" where
  "insert_books t a c d db =
     with_text t (\<lambda>t'. with_text a (\<lambda>a'. with_text c (\<lambda>c'. with_text d (\<lambda>d'.
       (let i = books_id_seq db
        in if 2147483647 < i then (Inl data_exception, db)
           else
             (let db' = db\<lparr>books_id_seq := i + 1\<rparr>
              in case t' of
                   None \<Rightarrow> (Inl not_null_violation, db')
                 | Some v \<Rightarrow>
                     if word_of_int i \<in> set (map r_id (books db)) then (Inl unique_violation, db')
                     else
                       (let r = \<lparr>r_id = word_of_int i, r_title = v, r_author = a',
                                  r_category = c', r_description = d',
                                  r_is_borrowed = Some False, r_borrower = None,
                                  r_borrowed_at = None, r_returned_at = None\<rparr>
                        in (Inr r, db'\<lparr>books := books db @ [r]\<rparr>))))) db) db) db) db"

text \<open>
  \<open>update books set ... where ... returning *\<close>: the rows the condition selects are
  replaced, and returned as they are after the update.
\<close>

definition sql_update :: "(row \<Rightarrow> bool) \<Rightarrow> (row \<Rightarrow> row) \<Rightarrow> store \<Rightarrow> row list \<times> store" where
  "sql_update P f db =
     (map f (filter P (books db)),
      db\<lparr>books := map (\<lambda>r. if P r then f r else r) (books db)\<rparr>)"

text \<open>
  \<open>update books set title = coalesce($2, title), author = coalesce($3, author),
  category = coalesce($4, category), description = coalesce($5, description)
  where id=$1 returning *\<close>
\<close>

definition coalesce :: "'a option \<Rightarrow> 'a option \<Rightarrow> 'a option" where
  "coalesce x y = (case x of None \<Rightarrow> y | Some v \<Rightarrow> Some v)"

definition update_fields ::
  "int option \<Rightarrow> ustring option \<Rightarrow> ustring option \<Rightarrow> ustring option \<Rightarrow> ustring option \<Rightarrow> store
    \<Rightarrow> (pg_error + row list) \<times> store" where
  "update_fields p t a c d db =
     with_id p (\<lambda>i. with_text t (\<lambda>t'. with_text a (\<lambda>a'. with_text c (\<lambda>c'. with_text d (\<lambda>d'.
       executed
         (sql_update (\<lambda>r. r_id r = i)
            (\<lambda>r. r\<lparr>r_title := (case t' of None \<Rightarrow> r_title r | Some v \<Rightarrow> v),
                    r_author := coalesce a' (r_author r),
                    r_category := coalesce c' (r_category r),
                    r_description := coalesce d' (r_description r)\<rparr>) db)) db) db) db) db) db"

text \<open>\<open>delete from books where id=$1\<close>, with its \<open>rowCount\<close>\<close>

definition delete_books :: "int option \<Rightarrow> store \<Rightarrow> (pg_error + nat) \<times> store" where
  "delete_books p db =
     with_id p
       (\<lambda>i. executed
          (length (filter (\<lambda>r. r_id r = i) (books db)),
           db\<lparr>books := filter (\<lambda>r. r_id r \<noteq> i) (books db)\<rparr>)) db"

text \<open>
  \<open>update books set is_borrowed=true, borrower=$2, borrowed_at=now(), returned_at=null
  where id=$1 and is_borrowed=false returning *\<close> (server.js)
\<close>

definition update_borrow ::
  "int option \<Rightarrow> ustring option \<Rightarrow> timestamptz \<Rightarrow> store \<Rightarrow> (pg_error + row list) \<times> store" where
  "update_borrow p b now db =
     with_id p (\<lambda>i. with_text b (\<lambda>b'.
       executed
         (sql_update (\<lambda>r. r_id r = i \<and> r_is_borrowed r = Some False)
            (\<lambda>r. r\<lparr>r_is_borrowed := Some True, r_borrower := b',
                    r_borrowed_at := Some now, r_returned_at := None\<rparr>) db)) db) db"

text \<open>
  \<open>update books set is_borrowed=false, borrower='', returned_at=now()
  where id=$1 and is_borrowed=true returning *\<close> (both files)
\<close>

definition update_return ::
  "int option \<Rightarrow> timestamptz \<Rightarrow> store \<Rightarrow> (pg_error + row list) \<times> store" where
  "update_return p now db =
     with_id p
       (\<lambda>i. executed
          (sql_update (\<lambda>r. r_id r = i \<and> r_is_borrowed r = Some True)
             (\<lambda>r. r\<lparr>r_is_borrowed := Some False, r_borrower := Some [],
                     r_returned_at := Some now\<rparr>) db)) db"

text \<open>
  \<open>update books set is_borrowed=true, borrower=$2, borrowed_at=now()
  where id=$1 and is_borrowed=false returning *\<close> (the second file)
\<close>

definition update_borrow_part_000 ::
  "int option \<Rightarrow> ustring option \<Rightarrow> timestamptz \<Rightarrow> store \<Rightarrow> (pg_error + row list) \<times> store" where
  "update_borrow_part_000 p b now db =
     with_id p (\<lambda>i. with_text b (\<lambda>b'.
       executed
         (sql_update (\<lambda>r. r_id r = i \<and> r_is_borrowed r = Some False)
            (\<lambda>r. r\<lparr>r_is_borrowed := Some True, r_borrower := b',
                    r_borrowed_at := Some now\<rparr>) db)) db) db"

section \<open>Requests and responses\<close>

text \<open>The fields of the parsed JSON body that the handlers read.\<close>

record body =
  adminKey :: "json option"
  title :: "json option"
  author :: "json option"
  category :: "json option"
  description :: "json option"
  borrower :: "json option"

text \<open>
  A request: the header \<open>x-admin-key\<close>, the body (\<open>None\<close> when no JSON body was
  parsed), the query parameters \<open>adminKey\<close> and \<open>q\<close>, and the path parameter
  \<open>id\<close> as the integer the store receives for it (\<open>Number(req.params.id)\<close> in
  server.js, the text itself in the second file), whatever its size, \<open>None\<close> when what
  the store receives is not the text of an integer.
\<close>

record request =
  x_admin_key :: "ustring option"
  req_body :: "body option"
  query_adminKey :: "json option"
  query_q :: "json option"
  params_id :: "int option"

text \<open>
  The time fields of the mapped book: the empty string, or \<open>toISOString()\<close> of an
  instant, kept symbolic.
\<close>

datatype isotext = Blank | ISO timestamptz

record book =
  b_id :: int
  b_title :: ustring
  b_author :: ustring
  b_category :: ustring
  b_description :: ustring
  b_isBorrowed :: bool
  b_borrower :: ustring
  b_borrowedAt :: isotext
  b_returnedAt :: isotext

datatype payload =
    Book book
  | Books "book list"
  | Row row
  | Rows "row list"
  | OkTrue
  | Error string
  | ErrorMessage exn

datatype response = Response nat payload

definition ADMIN_KEY :: "ustring option \<Rightarrow> ustring" where
  "ADMIN_KEY env =
     (case env of None \<Rightarrow> str ''admin123'' | Some k \<Rightarrow> if k = [] then str ''admin123'' else k)"

text \<open>\<open>req.body?.f\<close> and \<open>req.body || {}\<close>\<close>

definition body_field :: "(body \<Rightarrow> json option) \<Rightarrow> request \<Rightarrow> json option" where
  "body_field f req = (case req_body req of None \<Rightarrow> None | Some b \<Rightarrow> f b)"

definition empty_body :: body where
  "empty_body = \<lparr>adminKey = None, title = None, author = None, category = None,
                  description = None, borrower = None\<rparr>"

definition body_or_empty :: "request \<Rightarrow> body" where
  "body_or_empty req = (case req_body req of None \<Rightarrow> empty_body | Some b \<Rightarrow> b)"

text \<open>A destructuring default \<open>f = ""\<close>: it applies to \<open>undefined\<close> only.\<close>

definition default_empty :: "json option \<Rightarrow> json option" where
  "default_empty v = (case v of None \<Rightarrow> Some (JStr []) | Some x \<Rightarrow> Some x)"

text \<open>\<open>v.toString()\<close> on a value that may be \<open>undefined\<close>\<close>

definition call_toString :: "json option \<Rightarrow> ustring option" where
  "call_toString v = (case v of None \<Rightarrow> None | Some j \<Rightarrow> toString j)"

definition okAdmin :: "ustring option \<Rightarrow> request \<Rightarrow> response option \<times> bool" where
  "okAdmin env req =
     (let key = js_or (js_or (map_option JStr (x_admin_key req)) (body_field adminKey req))
                  (query_adminKey req)
      in if key \<noteq> Some (JStr (ADMIN_KEY env))
         then (Some (Response 401 (Error ''unauthorized'')), False)
         else (None, True))"

definition or_empty :: "ustring option \<Rightarrow> ustring" where
  "or_empty v = (case v of None \<Rightarrow> [] | Some s \<Rightarrow> s)"

definition mapTime :: "timestamptz option \<Rightarrow> isotext" where
  "mapTime v = (case v of None \<Rightarrow> Blank | Some t \<Rightarrow> ISO t)"

definition mapRow :: "row \<Rightarrow> book" where
  "mapRow r =
     \<lparr>b_id = sint (r_id r),
      b_title = or_empty (Some (r_title r)),
      b_author = or_empty (r_author r),
      b_category = or_empty (r_category r),
      b_description = or_empty (r_description r),
      b_isBorrowed = (r_is_borrowed r = Some True),
      b_borrower = or_empty (r_borrower r),
      b_borrowedAt = mapTime (r_borrowed_at r),
      b_returnedAt = mapTime (r_returned_at r)\<rparr>"

section \<open>The handlers of server.js\<close>

text \<open>
  A handler takes the environment variable \<open>ADMIN_KEY\<close>, the request and the store,
  and returns the response it sends (\<open>None\<close> when it sends none) with the store it
  leaves. \<open>now\<close> is the store's \<open>now()\<close>, and \<open>lc\<close> the lower case of a
  character in the store's locale. Every handler of server.js runs inside
  \<open>try\<close>/\<open>catch\<close>: what is thrown is answered with status 500 and the message.
\<close>

definition get_api_books ::
  "(nat \<Rightarrow> nat) \<Rightarrow> request \<Rightarrow> store \<Rightarrow> response option \<times> store" where
  "get_api_books lc req db =
     (case call_toString (js_or (query_q req) (Some (JStr []))) of
        None \<Rightarrow> (Some (Response 500 (ErrorMessage TypeError)), db)
      | Some s \<Rightarrow>
          (let q = trim s
           in if q \<noteq> []
              then
                (case select_like lc (str ''%'' @ q @ str ''%'') db of
                   (Inl e, db') \<Rightarrow> (Some (Response 500 (ErrorMessage (DatabaseError e))), db')
                 | (Inr rows, db') \<Rightarrow> (Some (Response 200 (Books (map mapRow rows))), db'))
              else (Some (Response 200 (Books (map mapRow (select_all db)))), db)))"

definition post_api_books ::
  "ustring option \<Rightarrow> (json \<Rightarrow> ustring) \<Rightarrow> request \<Rightarrow> store \<Rightarrow> response option \<times> store" where
  "post_api_books env ser req db =
     (case okAdmin env req of
        (res, False) \<Rightarrow> (res, db)
      | (res, True) \<Rightarrow>
          (let b = body_or_empty req;
               t = title b;
               a = default_empty (author b);
               c = default_empty (category b);
               d = default_empty (description b)
           in if \<not> truthy t then (Some (Response 400 (Error ''title required'')), db)
              else
                (case insert_books (prepareValue ser t) (prepareValue ser a)
                        (prepareValue ser c) (prepareValue ser d) db of
                   (Inl e, db') \<Rightarrow> (Some (Response 500 (ErrorMessage (DatabaseError e))), db')
                 | (Inr r, db') \<Rightarrow> (Some (Response 200 (Book (mapRow r))), db'))))"

definition put_api_books_id ::
  "ustring option \<Rightarrow> (json \<Rightarrow> ustring) \<Rightarrow> request \<Rightarrow> store \<Rightarrow> response option \<times> store" where
  "put_api_books_id env ser req db =
     (case okAdmin env req of
        (res, False) \<Rightarrow> (res, db)
      | (res, True) \<Rightarrow>
          (let b = body_or_empty req
           in case update_fields (params_id req) (prepareValue ser (title b))
                     (prepareValue ser (author b)) (prepareValue ser (category b))
                     (prepareValue ser (description b)) db of
                (Inl e, db') \<Rightarrow> (Some (Response 500 (ErrorMessage (DatabaseError e))), db')
              | (Inr [], db') \<Rightarrow> (Some (Response 404 (Error ''not found'')), db')
              | (Inr (r # rs), db') \<Rightarrow> (Some (Response 200 (Book (mapRow r))), db')))"

definition delete_api_books_id ::
  "ustring option \<Rightarrow> request \<Rightarrow> store \<Rightarrow> response option \<times> store" where
  "delete_api_books_id env req db =
     (case okAdmin env req of
        (res, False) \<Rightarrow> (res, db)
      | (res, True) \<Rightarrow>
          (case delete_books (params_id req) db of
             (Inl e, db') \<Rightarrow> (Some (Response 500 (ErrorMessage (DatabaseError e))), db')
           | (Inr rowCount, db') \<Rightarrow>
               if rowCount = 0 then (Some (Response 404 (Error ''not found'')), db')
               else (Some (Response 200 OkTrue), db')))"

definition post_api_borrow_id ::
  "ustring option \<Rightarrow> timestamptz \<Rightarrow> request \<Rightarrow> store \<Rightarrow> response option \<times> store" where
  "post_api_borrow_id env now req db =
     (case okAdmin env req of
        (res, False) \<Rightarrow> (res, db)
      | (res, True) \<Rightarrow>
          (case call_toString (js_or (body_field borrower req) (Some (JStr (str ''unknown'')))) of
             None \<Rightarrow> (Some (Response 500 (ErrorMessage TypeError)), db)
           | Some b \<Rightarrow>
               (case update_borrow (params_id req) (Some b) now db of
                  (Inl e, db') \<Rightarrow> (Some (Response 500 (ErrorMessage (DatabaseError e))), db')
                | (Inr [], db') \<Rightarrow>
                    (Some (Response 400 (Error ''not found or already borrowed'')), db')
                | (Inr (r # rs), db') \<Rightarrow> (Some (Response 200 (Book (mapRow r))), db'))))"

definition post_api_return_id ::
  "ustring option \<Rightarrow> timestamptz \<Rightarrow> request \<Rightarrow> store \<Rightarrow> response option \<times> store" where
  "post_api_return_id env now req db =
     (case okAdmin env req of
        (res, False) \<Rightarrow> (res, db)
      | (res, True) \<Rightarrow>
          (case update_return (params_id req) now db of
             (Inl e, db') \<Rightarrow> (Some (Response 500 (ErrorMessage (DatabaseError e))), db')
           | (Inr [], db') \<Rightarrow> (Some (Response 400 (Error ''not found or not borrowed'')), db')
           | (Inr (r # rs), db') \<Rightarrow> (Some (Response 200 (Book (mapRow r))), db')))"

section \<open>The handlers of the second file (src/unnamed/part_000)\<close>

text \<open>
  The second file is a shorter server over the same table. Its handlers read the key
  from the header only, send the rows as the store returns them, and have no
  \<open>try\<close>/\<open>catch\<close>: when something is thrown the promise of the handler is rejected
  and the handler sends no response (\<open>None\<close>).
\<close>

definition get_api_books_part_000 :: "request \<Rightarrow> store \<Rightarrow> response option \<times> store" where
  "get_api_books_part_000 req db = (Some (Response 200 (Rows (select_all db))), db)"

definition post_api_books_part_000 ::
  "ustring option \<Rightarrow> (json \<Rightarrow> ustring) \<Rightarrow> request \<Rightarrow> store \<Rightarrow> response option \<times> store" where
  "post_api_books_part_000 env ser req db =
     (if x_admin_key req \<noteq> Some (ADMIN_KEY env)
      then (Some (Response 401 (Error ''unauthorized'')), db)
      else
        (case req_body req of
           None \<Rightarrow> (None, db)
         | Some b \<Rightarrow>
             (case insert_books (prepareValue ser (title b))
                     (prepareValue ser (default_empty (author b)))
                     (prepareValue ser (default_empty (category b)))
                     (prepareValue ser (default_empty (description b))) db of
                (Inl e, db') \<Rightarrow> (None, db')
              | (Inr r, db') \<Rightarrow> (Some (Response 200 (Row r)), db'))))"

definition post_api_borrow_id_part_000 ::
  "ustring option \<Rightarrow> (json \<Rightarrow> ustring) \<Rightarrow> timestamptz \<Rightarrow> request \<Rightarrow> store
    \<Rightarrow> response option \<times> store" where
  "post_api_borrow_id_part_000 env ser now req db =
     (if x_admin_key req \<noteq> Some (ADMIN_KEY env)
      then (Some (Response 401 (Error ''unauthorized'')), db)
      else
        (case update_borrow_part_000 (params_id req)
                (prepareValue ser (js_or (body_field borrower req) (Some (JStr (str ''unknown'')))))
                now db of
           (Inl e, db') \<Rightarrow> (None, db')
         | (Inr [], db') \<Rightarrow> (Some (Response 400 (Error ''not found or already borrowed'')), db')
         | (Inr (r # rs), db') \<Rightarrow> (Some (Response 200 (Row r)), db')))"

definition post_api_return_id_part_000 ::
  "ustring option \<Rightarrow> timestamptz \<Rightarrow> request \<Rightarrow> store \<Rightarrow> response option \<times> store" where
  "post_api_return_id_part_000 env now req db =
     (if x_admin_key req \<noteq> Some (ADMIN_KEY env)
      then (Some (Response 401 (Error ''unauthorized'')), db)
      else
        (case update_return (params_id req) now db of
           (Inl e, db') \<Rightarrow> (None, db')
         | (Inr [], db') \<Rightarrow> (Some (Response 400 (Error ''not found or not borrowed'')), db')
         | (Inr (r # rs), db') \<Rightarrow> (Some (Response 200 (Row r)), db')))"

section \<open>Predicates of the specification\<close>

text \<open>
  The constraints the schema puts on the table: \<open>id\<close> is a primary key, the sequence
  starts at 1, and every id was drawn from the sequence.
\<close>

definition store_inv :: "store \<Rightarrow> bool" where
  "store_inv db =
     (distinct (map r_id (books db)) \<and> 1 \<le> books_id_seq db
      \<and> (\<forall>r \<in> set (books db). sint (r_id r) < books_id_seq db))"

text \<open>
  The parameter the store receives for a field of the body (\<open>NULL\<close> when the field
  is absent or \<open>null\<close>), and a text parameter the store accepts: \<open>NULL\<close>, or a
  text without the character U+0000.
\<close>

definition supplied :: "(json \<Rightarrow> ustring) \<Rightarrow> (body \<Rightarrow> json option) \<Rightarrow> request \<Rightarrow> ustring option" where
  "supplied ser f req = prepareValue ser (f (body_or_empty req))"

definition sendable :: "ustring option \<Rightarrow> bool" where
  "sendable v = (case v of None \<Rightarrow> True | Some s \<Rightarrow> 0 \<notin> set s)"

text \<open>The two states of the lifecycle, as the conditional updates test them.\<close>

definition Available :: "row \<Rightarrow> bool" where
  "Available r = (r_is_borrowed r = Some False)"

definition Borrowed :: "row \<Rightarrow> bool" where
  "Borrowed r = (r_is_borrowed r = Some True)"

text \<open>Every record is in one of the two states: \<open>is_borrowed\<close> is not \<open>NULL\<close>.\<close>

definition states_known :: "store \<Rightarrow> bool" where
  "states_known db = (\<forall>r \<in> set (books db). Available r \<or> Borrowed r)"

text \<open>
  The invariant of the data model, on the mapped book: not borrowed with an empty
  borrower, or borrowed with a non-empty one.
\<close>

definition borrow_inv :: "book \<Rightarrow> bool" where
  "borrow_inv b =
     ((\<not> b_isBorrowed b \<and> b_borrower b = []) \<or> (b_isBorrowed b \<and> b_borrower b \<noteq> []))"

definition catalog_inv :: "store \<Rightarrow> bool" where
  "catalog_inv db = (\<forall>r \<in> set (books db). borrow_inv (mapRow r))"

text \<open>
  The states server.js reaches from the empty catalog by serving create, update, delete,
  borrow and return requests.
\<close>

inductive reachable :: "ustring option \<Rightarrow> (json \<Rightarrow> ustring) \<Rightarrow> store \<Rightarrow> bool"
  for env :: "ustring option" and ser :: "json \<Rightarrow> ustring" where
  empty: "reachable env ser empty_catalog"
| create: "reachable env ser db \<Longrightarrow> reachable env ser (snd (post_api_books env ser req db))"
| update: "reachable env ser db \<Longrightarrow> reachable env ser (snd (put_api_books_id env ser req db))"
| delete: "reachable env ser db \<Longrightarrow> reachable env ser (snd (delete_api_books_id env req db))"
| borrow: "reachable env ser db \<Longrightarrow> reachable env ser (snd (post_api_borrow_id env now req db))"
| return: "reachable env ser db \<Longrightarrow> reachable env ser (snd (post_api_return_id env now req db))"

text \<open>
  The same, when every borrow request names its borrower by text: the field \<open>borrower\<close>
  of its body is absent or a string.
\<close>

inductive reachable_text :: "ustring option \<Rightarrow> (json \<Rightarrow> ustring) \<Rightarrow> store \<Rightarrow> bool"
  for env :: "ustring option" and ser :: "json \<Rightarrow> ustring" where
  empty: "reachable_text env ser empty_catalog"
| create: "reachable_text env ser db \<Longrightarrow>
     reachable_text env ser (snd (post_api_books env ser req db))"
| update: "reachable_text env ser db \<Longrightarrow>
     reachable_text env ser (snd (put_api_books_id env ser req db))"
| delete: "reachable_text env ser db \<Longrightarrow>
     reachable_text env ser (snd (delete_api_books_id env req db))"
| borrow: "reachable_text env ser db \<Longrightarrow> body_field borrower req = map_option JStr name \<Longrightarrow>
     reachable_text env ser (snd (post_api_borrow_id env now req db))"
| return: "reachable_text env ser db \<Longrightarrow>
     reachable_text env ser (snd (post_api_return_id env now req db))"

text \<open>
  The borrower a borrow request names: the given name, or \<open>unknown\<close> when the name is
  absent or empty.
\<close>

definition name_or_unknown :: "ustring option \<Rightarrow> ustring" where
  "name_or_unknown name =
     (case name of None \<Rightarrow> str ''unknown'' | Some n \<Rightarrow> if n = [] then str ''unknown'' else n)"

text \<open>
  The effects of the two transitions on a record, field by field, in the words of the
  specification. Borrow: the state becomes Borrowed, the borrower the given name, borrowedAt
  the current time, and returnedAt is cleared. Return: the state becomes Available, the
  borrower empty, returnedAt the current time; borrowedAt stays.
\<close>

definition borrow_effect :: "ustring \<Rightarrow> timestamptz \<Rightarrow> row \<Rightarrow> row" where
  "borrow_effect name now r =
     \<lparr>r_id = r_id r, r_title = r_title r, r_author = r_author r, r_category = r_category r,
      r_description = r_description r, r_is_borrowed = Some True, r_borrower = Some name,
      r_borrowed_at = Some now, r_returned_at = None\<rparr>"

definition return_effect :: "timestamptz \<Rightarrow> row \<Rightarrow> row" where
  "return_effect now r =
     \<lparr>r_id = r_id r, r_title = r_title r, r_author = r_author r, r_category = r_category r,
      r_description = r_description r, r_is_borrowed = Some False, r_borrower = Some [],
      r_borrowed_at = r_borrowed_at r, r_returned_at = Some now\<rparr>"

text \<open>The store with one record replaced, every other record and the sequence as they were.\<close>

definition replace_row :: "row \<Rightarrow> row \<Rightarrow> store \<Rightarrow> store" where
  "replace_row r r' db = db\<lparr>books := map (\<lambda>x. if x = r then r' else x) (books db)\<rparr>"

text \<open>
  The admin key in the words of the specification: the header \<open>x-admin-key\<close>, else the
  body field \<open>adminKey\<close>, else the query parameter \<open>adminKey\<close>, where a source that is
  absent or empty (falsy) gives way to the next.
\<close>

definition supplied_key :: "request \<Rightarrow> json option" where
  "supplied_key req =
     (case x_admin_key req of
        Some h \<Rightarrow>
          if h \<noteq> [] then Some (JStr h)
          else if truthy (body_field adminKey req) then body_field adminKey req
          else query_adminKey req
      | None \<Rightarrow>
          if truthy (body_field adminKey req) then body_field adminKey req
          else query_adminKey req)"

definition unauthorized :: "response option" where
  "unauthorized = Some (Response 401 (Error ''unauthorized''))"

text \<open>
  The query occurs in the text as a substring, case-insensitively: the lower case of the
  one is a part of the lower case of the other. And a query with none of the characters
  \<open>%\<close>, \<open>_\<close> and backslash, which \<open>like\<close> gives a meaning to.
\<close>

definition contains_ci :: "(nat \<Rightarrow> nat) \<Rightarrow> ustring \<Rightarrow> ustring \<Rightarrow> bool" where
  "contains_ci lc q s = sublist (lower lc q) (lower lc s)"

definition plain :: "ustring \<Rightarrow> bool" where
  "plain q = (0x25 \<notin> set q \<and> 0x5F \<notin> set q \<and> 0x5C \<notin> set q)"

definition matches :: "(nat \<Rightarrow> nat) \<Rightarrow> ustring \<Rightarrow> book \<Rightarrow> bool" where
  "matches lc q b =
     (contains_ci lc q (b_title b) \<or> contains_ci lc q (b_author b)
      \<or> contains_ci lc q (b_category b))"

section \<open>Sample requests and records\<close>

text \<open>
  The requests and records at which the witnesses and the counterexamples are evaluated. The
  configured secret is the default, \<open>admin123\<close>, and the locale of the store maps the
  letters \<open>A\<close> to \<open>Z\<close> to lower case and no other character.
\<close>

definition ascii_lower :: "nat \<Rightarrow> nat" where
  "ascii_lower c = (if 0x41 \<le> c \<and> c \<le> 0x5A then c + 0x20 else c)"

abbreviation admin_req :: request where
  "admin_req \<equiv> \<lparr>x_admin_key = Some (str ''admin123''), req_body = None, query_adminKey = None,
                 query_q = None, params_id = Some 1\<rparr>"

abbreviation anon_req :: request where
  "anon_req \<equiv> \<lparr>x_admin_key = None, req_body = Some empty_body, query_adminKey = None,
                query_q = None, params_id = Some 1\<rparr>"

abbreviation dune :: row where
  "dune \<equiv> \<lparr>r_id = 1, r_title = (str ''Dune''), r_author = Some (str ''Herbert''), r_category = Some [],
            r_description = Some [], r_is_borrowed = Some False, r_borrower = None,
            r_borrowed_at = None, r_returned_at = None\<rparr>"

abbreviation dune_out :: row where
  "dune_out \<equiv> \<lparr>r_id = 1, r_title = (str ''Dune''), r_author = Some (str ''Herbert''), r_category = Some [],
            r_description = Some [], r_is_borrowed = Some True, r_borrower = Some (str ''ann''),
            r_borrowed_at = Some 3, r_returned_at = None\<rparr>"

abbreviation shelf :: "row \<Rightarrow> store" where
  "shelf r \<equiv> \<lparr>books = [r], books_id_seq = 2\<rparr>"

abbreviation dune_back :: row where
  "dune_back \<equiv> \<lparr>r_id = 1, r_title = (str ''Dune''), r_author = Some (str ''Herbert''), r_category = Some [],
            r_description = Some [], r_is_borrowed = Some False, r_borrower = Some [],
            r_borrowed_at = Some 3, r_returned_at = Some 9\<rparr>"

abbreviation retitle_req :: request where
  "retitle_req \<equiv> \<lparr>x_admin_key = Some (str ''admin123''),
     req_body = Some \<lparr>adminKey = None, title = Some (JStr (str ''Dune Messiah'')), author = None,
                       category = Some JNull, description = None, borrower = Some (JStr (str ''eve''))\<rparr>,
     query_adminKey = None, query_q = None, params_id = Some 1\<rparr>"

abbreviation dune_out_retitled :: row where
  "dune_out_retitled \<equiv> \<lparr>r_id = 1, r_title = (str ''Dune Messiah''), r_author = Some (str ''Herbert''),
            r_category = Some [], r_description = Some [], r_is_borrowed = Some True,
            r_borrower = Some (str ''ann''), r_borrowed_at = Some 3, r_returned_at = None\<rparr>"

abbreviation search_req :: "ustring \<Rightarrow> request" where
  "search_req s \<equiv> \<lparr>x_admin_key = None, req_body = None, query_adminKey = None,
                   query_q = Some (JStr s), params_id = None\<rparr>"

abbreviation body_key_req :: request where
  "body_key_req \<equiv> \<lparr>x_admin_key = None,
     req_body = Some \<lparr>adminKey = Some (JStr (str ''admin123'')), title = Some (JStr (str ''Dune'')), author = None,
                       category = None, description = None, borrower = None\<rparr>,
     query_adminKey = None, query_q = None, params_id = Some 1\<rparr>"

abbreviation wrong_header_req :: request where
  "wrong_header_req \<equiv> \<lparr>x_admin_key = Some (str ''guess''),
     req_body = Some \<lparr>adminKey = Some (JStr (str ''admin123'')), title = None, author = None,
                       category = None, description = None, borrower = None\<rparr>,
     query_adminKey = Some (JStr (str ''admin123'')), query_q = None, params_id = Some 1\<rparr>"

abbreviation create_req :: request where
  "create_req \<equiv> \<lparr>x_admin_key = Some (str ''admin123''),
     req_body = Some \<lparr>adminKey = None, title = Some (JStr (str ''Dune'')), author = Some (JStr (str ''Herbert'')),
                       category = None, description = None, borrower = None\<rparr>,
     query_adminKey = None, query_q = None, params_id = None\<rparr>"

abbreviation array_borrow_req :: request where
  "array_borrow_req \<equiv> \<lparr>x_admin_key = Some (str ''admin123''),
     req_body = Some \<lparr>adminKey = None, title = None, author = None,
                       category = None, description = None, borrower = Some (JArr [])\<rparr>,
     query_adminKey = None, query_q = None, params_id = Some 1\<rparr>"

abbreviation dune_nobody :: row where
  "dune_nobody \<equiv> \<lparr>r_id = 1, r_title = (str ''Dune''), r_author = Some (str ''Herbert''), r_category = Some [],
            r_description = Some [], r_is_borrowed = Some True, r_borrower = Some [],
            r_borrowed_at = Some 3, r_returned_at = None\<rparr>"

abbreviation dune_again :: row where
  "dune_again \<equiv> \<lparr>r_id = 1, r_title = (str ''Dune''), r_author = Some (str ''Herbert''), r_category = Some [],
            r_description = Some [], r_is_borrowed = Some True, r_borrower = Some (str ''unknown''),
            r_borrowed_at = Some 12, r_returned_at = None\<rparr>"

abbreviation dune_again_stale :: row where
  "dune_again_stale \<equiv> \<lparr>r_id = 1, r_title = (str ''Dune''), r_author = Some (str ''Herbert''), r_category = Some [],
            r_description = Some [], r_is_borrowed = Some True, r_borrower = Some (str ''unknown''),
            r_borrowed_at = Some 12, r_returned_at = Some 9\<rparr>"

abbreviation empty_title_req :: request where
  "empty_title_req \<equiv> \<lparr>x_admin_key = Some (str ''admin123''),
     req_body = Some \<lparr>adminKey = None, title = Some (JStr []), author = None,
                       category = None, description = None, borrower = None\<rparr>,
     query_adminKey = None, query_q = None, params_id = None\<rparr>"

abbreviation untitled :: row where
  "untitled \<equiv> \<lparr>r_id = 1, r_title = [], r_author = Some [], r_category = Some [],
            r_description = Some [], r_is_borrowed = Some False, r_borrower = None,
            r_borrowed_at = None, r_returned_at = None\<rparr>"

abbreviation big_id_req :: request where
  "big_id_req \<equiv> \<lparr>x_admin_key = Some (str ''admin123''),
     req_body = Some \<lparr>adminKey = None, title = Some (JStr (str ''Dune Messiah'')), author = None,
                       category = None, description = None, borrower = Some (JStr (str ''eve''))\<rparr>,
     query_adminKey = None, query_q = None, params_id = Some 2147483648\<rparr>"

abbreviation opaque_borrow_req :: request where
  "opaque_borrow_req \<equiv> \<lparr>x_admin_key = Some (str ''admin123''),
     req_body = Some \<lparr>adminKey = None, title = None, author = None, category = None,
                       description = None,
                       borrower = Some (JObj [(str ''toString'', JNum (str ''1''))])\<rparr>,
     query_adminKey = None, query_q = None, params_id = Some 1\<rparr>"

abbreviation nul_borrow_req :: request where
  "nul_borrow_req \<equiv> \<lparr>x_admin_key = Some (str ''admin123''),
     req_body = Some \<lparr>adminKey = None, title = None, author = None, category = None,
                       description = None, borrower = Some (JStr [0])\<rparr>,
     query_adminKey = None, query_q = None, params_id = Some 1\<rparr>"

abbreviation nul_title_req :: request where
  "nul_title_req \<equiv> \<lparr>x_admin_key = Some (str ''admin123''),
     req_body = Some \<lparr>adminKey = None, title = Some (JStr [0]), author = None, category = None,
                       description = None, borrower = None\<rparr>,
     query_adminKey = None, query_q = None, params_id = Some 1\<rparr>"

abbreviation no_title_req :: request where
  "no_title_req \<equiv> \<lparr>x_admin_key = Some (str ''admin123''), req_body = Some empty_body,
     query_adminKey = None, query_q = None, params_id = None\<rparr>"

section \<open>Properties of the coercions and of the statements\<close>

text \<open>
  The admin check: the chain of \<open>||\<close> in \<open>okAdmin\<close> picks the key that
  \<open>supplied_key\<close> describes, and the default secret is never empty.
\<close>

lemma str_empty: "str s = [] \<longleftrightarrow> s = []"
  by (simp add: str_def)

lemma str_sendable: "0 \<notin> set (str ''unknown'')"
  by (simp add: str_def)

lemma ADMIN_KEY_nonempty: "ADMIN_KEY env \<noteq> []"
  by (simp add: ADMIN_KEY_def str_empty split: option.splits)

lemma js_or_key: "js_or (js_or (map_option JStr (x_admin_key req)) (body_field adminKey req)) (query_adminKey req) = supplied_key req"
  by (cases "x_admin_key req") (auto simp: js_or_def supplied_key_def)

lemma okAdmin_eq:
  "okAdmin env req =
     (if supplied_key req = Some (JStr (ADMIN_KEY env)) then (None, True) else (unauthorized, False))"
  by (simp add: okAdmin_def js_or_key unauthorized_def Let_def)

lemma admin_req_key: "supplied_key admin_req = Some (JStr (ADMIN_KEY None))"
  by (simp add: supplied_key_def ADMIN_KEY_def str_empty)

text \<open>
  A conditional update: without a row that meets the condition it returns no row and
  leaves the store as it was; with one it returns a row that met it. Under the primary key
  the condition \<open>id = i\<close> selects one row at most, and the update replaces that row.
\<close>

lemma sql_update_none:
  assumes "\<forall>r \<in> set (books db). \<not> P r"
  shows "sql_update P f db = ([], db)"
proof -
  have "filter P (books db) = []" using assms by (simp add: filter_empty_conv)
  moreover have "map (\<lambda>r. if P r then f r else r) (books db) = books db"
    using assms by (simp add: map_idI)
  ultimately show ?thesis by (simp add: sql_update_def)
qed

lemma sql_update_some:
  assumes "r \<in> set (books db)" "P r"
  shows "\<exists>r0 rs. fst (sql_update P f db) = f r0 # rs \<and> r0 \<in> set (books db) \<and> P r0"
proof -
  from assms have "filter P (books db) \<noteq> []" by (auto simp: filter_empty_conv)
  then obtain r0 rs where e: "filter P (books db) = r0 # rs" by (cases "filter P (books db)") auto
  then have "r0 \<in> set (filter P (books db))" by simp
  then have "r0 \<in> set (books db) \<and> P r0" by simp
  with e show ?thesis by (auto simp: sql_update_def)
qed

lemma sql_update_snd:
  "snd (sql_update P f db) = db\<lparr>books := map (\<lambda>r. if P r then f r else r) (books db)\<rparr>"
  by (simp add: sql_update_def)

lemma filter_key:
  assumes "distinct (map r_id xs)" "r \<in> set xs"
  shows "filter (\<lambda>x. r_id x = r_id r \<and> Q x) xs = (if Q r then [r] else [])"
  using assms
proof (induction xs)
  case Nil
  then show ?case by simp
next
  case (Cons x xs)
  show ?case
  proof (cases "x = r")
    case True
    with Cons.prems have "r_id r \<notin> r_id ` set xs" by simp
    then have "\<forall>y \<in> set xs. r_id y \<noteq> r_id r" by (metis imageI)
    then have "filter (\<lambda>x. r_id x = r_id r \<and> Q x) xs = []" by (simp add: filter_empty_conv)
    with True show ?thesis by simp
  next
    case False
    with Cons.prems have "r \<in> set xs" "r_id x \<noteq> r_id r" by auto
    with Cons show ?thesis by simp
  qed
qed

lemma map_key:
  assumes "distinct (map r_id xs)" "r \<in> set xs" "Q r"
  shows "map (\<lambda>x. if r_id x = r_id r \<and> Q x then f x else x) xs = map (\<lambda>x. if x = r then f r else x) xs"
proof (rule map_cong[OF refl])
  fix x assume "x \<in> set xs"
  with assms have "r_id x = r_id r \<longleftrightarrow> x = r" by (auto simp: distinct_map inj_on_def)
  with assms(3) show "(if r_id x = r_id r \<and> Q x then f x else x) = (if x = r then f r else x)" by auto
qed

lemma sql_update_key:
  assumes "distinct (map r_id (books db))" "r \<in> set (books db)" "Q r"
  shows "sql_update (\<lambda>x. r_id x = r_id r \<and> Q x) f db = ([f r], replace_row r (f r) db)"
  using assms by (simp add: sql_update_def filter_key map_key replace_row_def)

lemma sql_update_id:
  assumes "distinct (map r_id (books db))" "r \<in> set (books db)"
  shows "sql_update (\<lambda>x. r_id x = r_id r) f db = ([f r], replace_row r (f r) db)"
  using sql_update_key[OF assms, of "\<lambda>x. True" f] by simp

lemma return_effect_eq:
  "r\<lparr>r_is_borrowed := Some False, r_borrower := Some [], r_returned_at := Some now\<rparr> = return_effect now r"
  by (simp add: return_effect_def)

lemma borrow_effect_eq:
  "r\<lparr>r_is_borrowed := Some True, r_borrower := Some b, r_borrowed_at := Some now, r_returned_at := None\<rparr> = borrow_effect b now r"
  by (simp add: borrow_effect_def)

lemma mapRow_borrow_effect:
  "mapRow (borrow_effect n now r) =
     (mapRow r)\<lparr>b_isBorrowed := True, b_borrower := n, b_borrowedAt := ISO now, b_returnedAt := Blank\<rparr>"
  by (simp add: mapRow_def borrow_effect_def or_empty_def mapTime_def)

lemma mapRow_return_effect:
  "mapRow (return_effect now r) =
     (mapRow r)\<lparr>b_isBorrowed := False, b_borrower := [], b_returnedAt := ISO now\<rparr>"
  by (simp add: mapRow_def return_effect_def or_empty_def mapTime_def)

text \<open>
  The borrower a request names, after \<open>(req.body?.borrower || "unknown").toString()\<close>.
\<close>

lemma borrower_name:
  "call_toString (js_or (map_option JStr name) (Some (JStr (str ''unknown'')))) = Some (name_or_unknown name)"
  by (cases name) (auto simp: call_toString_def js_or_def name_or_unknown_def)

lemma borrower_text_nonempty:
  "call_toString (js_or (map_option JStr name) (Some (JStr (str ''unknown'')))) \<noteq> Some []"
  by (simp add: borrower_name name_or_unknown_def str_empty split: option.splits)

lemma name_sendable: "0 \<notin> set (name_or_unknown name) \<longleftrightarrow> sendable name"
  by (simp add: name_or_unknown_def sendable_def str_sendable split: option.splits)

text \<open>
  The parameters of a statement: an id in the range of the column reaches the statement as
  the id of the column, and no record has an id outside the range; a text without U+0000
  reaches it in UTF-8; and a parameter the store cannot read leaves the store as it was.
\<close>

lemma sint_in_int4: "in_int4 (sint (w :: int4))"
  using sint_ge[of w] sint_lt[of w] by (simp add: in_int4_def)

lemma sint_inject: "sint (v :: int4) = sint w \<Longrightarrow> v = w"
  by (rule signed_word_eqI)

lemma sint_word_of_int: "in_int4 i \<Longrightarrow> sint (word_of_int i :: int4) = i"
  by (simp add: in_int4_def sint_sbintrunc' signed_take_bit_int_eq_self)

lemma id_param: "in_int4 i \<Longrightarrow> (r_id r = word_of_int i) = (sint (r_id r) = i)"
  using sint_word_of_int[of i] by auto

lemma no_id_out_of_range: "\<not> in_int4 i \<Longrightarrow> sint (r_id r) \<noteq> i"
  using sint_in_int4[of "r_id r"] by auto

lemma with_id_in: "in_int4 i \<Longrightarrow> with_id (Some i) stmt db = stmt (word_of_int i)"
  by (simp add: with_id_def)

lemma with_id_out: "\<not> in_int4 i \<Longrightarrow> with_id (Some i) stmt db = (Inl data_exception, db)"
  by (simp add: with_id_def)

lemma with_id_row: "sint (r_id r) = i \<Longrightarrow> with_id (Some i) stmt db = stmt (r_id r)"
  using sint_in_int4[of "r_id r"] by (auto simp: with_id_def)

lemma with_text_sendable: "sendable v \<Longrightarrow> with_text v stmt db = stmt (map_option utf8 v)"
  by (cases v) (simp_all add: with_text_def sendable_def text_param_def)

lemma with_text_refused: "\<not> sendable v \<Longrightarrow> with_text v stmt db = (Inl data_exception, db)"
  by (cases v) (simp_all add: with_text_def sendable_def text_param_def)

lemma utf8_empty: "utf8 s = [] \<longleftrightarrow> s = []"
  by (simp add: utf8_def)

lemma utf8_no_surrogate:
  assumes "\<forall>c \<in> set s. c < 0xD800 \<or> 0xDFFF < c"
  shows "utf8 s = s"
  unfolding utf8_def using assms by (intro map_idI) auto

subsection \<open>The store each handler of server.js leaves\<close>

lemma snd_rows:
  "snd (case x of (Inl e, db') \<Rightarrow> (f e, db') | (Inr [], db') \<Rightarrow> (g, db')
            | (Inr (r # rs), db') \<Rightarrow> (h r, db')) = snd x"
  by (simp split: prod.splits sum.splits list.splits)

lemma snd_executed: "snd (executed out) = snd out"
  by (simp add: executed_def)

lemma snd_with_text:
  "snd (with_text v stmt db) = (if sendable v then snd (stmt (map_option utf8 v)) else db)"
  by (simp add: with_text_sendable with_text_refused)

lemma snd_with_id:
  "snd (with_id p stmt db) =
     (case p of None \<Rightarrow> db | Some i \<Rightarrow> if in_int4 i then snd (stmt (word_of_int i)) else db)"
  by (simp add: with_id_def split: option.splits)

lemma snd_create:
  "snd (post_api_books env ser req db) =
     (if supplied_key req = Some (JStr (ADMIN_KEY env)) \<and> truthy (title (body_or_empty req))
      then snd (insert_books (prepareValue ser (title (body_or_empty req)))
                  (prepareValue ser (default_empty (author (body_or_empty req))))
                  (prepareValue ser (default_empty (category (body_or_empty req))))
                  (prepareValue ser (default_empty (description (body_or_empty req)))) db)
      else db)"
  by (simp add: post_api_books_def okAdmin_eq Let_def split: prod.splits sum.splits)

lemma snd_update:
  "snd (put_api_books_id env ser req db) =
     (if supplied_key req = Some (JStr (ADMIN_KEY env))
      then snd (update_fields (params_id req) (prepareValue ser (title (body_or_empty req)))
                  (prepareValue ser (author (body_or_empty req)))
                  (prepareValue ser (category (body_or_empty req)))
                  (prepareValue ser (description (body_or_empty req))) db)
      else db)"
  by (simp add: put_api_books_id_def okAdmin_eq Let_def snd_rows)

lemma snd_delete:
  "snd (delete_api_books_id env req db) =
     (if supplied_key req = Some (JStr (ADMIN_KEY env))
      then snd (delete_books (params_id req) db) else db)"
  by (simp add: delete_api_books_id_def okAdmin_eq split: prod.splits sum.splits)

lemma snd_return:
  "snd (post_api_return_id env now req db) =
     (if supplied_key req = Some (JStr (ADMIN_KEY env))
      then snd (update_return (params_id req) now db) else db)"
  by (simp add: post_api_return_id_def okAdmin_eq snd_rows)

lemma snd_borrow:
  "snd (post_api_borrow_id env now req db) =
     (if supplied_key req = Some (JStr (ADMIN_KEY env))
      then (case call_toString (js_or (body_field borrower req) (Some (JStr (str ''unknown'')))) of
              None \<Rightarrow> db
            | Some b \<Rightarrow> snd (update_borrow (params_id req) (Some b) now db))
      else db)"
  by (simp add: post_api_borrow_id_def okAdmin_eq snd_rows split: option.splits)

subsection \<open>Borrow and return\<close>

text \<open>
  Return, in both files: the conflict, the success and its exact outcome, and the id that
  is outside the range of the column.
\<close>

lemma no_row_update:
  assumes "in_int4 i" "\<not> (\<exists>r \<in> set (books db). sint (r_id r) = i \<and> r_is_borrowed r = s)"
  shows "sql_update (\<lambda>r. r_id r = word_of_int i \<and> r_is_borrowed r = s) f db = ([], db)"
  using assms by (intro sql_update_none) (simp add: id_param)

lemma return_conflict:
  assumes "supplied_key req = Some (JStr (ADMIN_KEY env))" "params_id req = Some i" "in_int4 i"
   "\<not> (\<exists>r \<in> set (books db). sint (r_id r) = i \<and> Borrowed r)"
  shows "post_api_return_id env now req db = (Some (Response 400 (Error ''not found or not borrowed'')), db)"
  using assms
  by (simp add: post_api_return_id_def okAdmin_eq update_return_def with_id_in executed_def
      no_row_update Borrowed_def)

lemma return_out_of_range:
  assumes "supplied_key req = Some (JStr (ADMIN_KEY env))" "params_id req = Some i" "\<not> in_int4 i"
  shows "post_api_return_id env now req db =
           (Some (Response 500 (ErrorMessage (DatabaseError data_exception))), db)"
  using assms by (simp add: post_api_return_id_def okAdmin_eq update_return_def with_id_out)

lemma return_conflict_part_000:
  assumes "x_admin_key req = Some (ADMIN_KEY env)" "params_id req = Some i" "in_int4 i"
   "\<not> (\<exists>r \<in> set (books db). sint (r_id r) = i \<and> Borrowed r)"
  shows "post_api_return_id_part_000 env now req db = (Some (Response 400 (Error ''not found or not borrowed'')), db)"
  using assms
  by (simp add: post_api_return_id_part_000_def update_return_def with_id_in executed_def
      no_row_update Borrowed_def)

lemma return_out_of_range_part_000:
  assumes "x_admin_key req = Some (ADMIN_KEY env)" "params_id req = Some i" "\<not> in_int4 i"
  shows "post_api_return_id_part_000 env now req db = (None, db)"
  using assms by (simp add: post_api_return_id_part_000_def update_return_def with_id_out)

lemma return_success:
  assumes "supplied_key req = Some (JStr (ADMIN_KEY env))" "params_id req = Some i"
    "distinct (map r_id (books db))" "r \<in> set (books db)" "sint (r_id r) = i" "Borrowed r"
  shows "post_api_return_id env now req db =
    (Some (Response 200 (Book (mapRow (return_effect now r)))), replace_row r (return_effect now r) db)"
proof -
  have "sql_update (\<lambda>x. r_id x = r_id r \<and> r_is_borrowed x = Some True) (return_effect now) db
        = ([return_effect now r], replace_row r (return_effect now r) db)"
    using assms by (intro sql_update_key) (auto simp: Borrowed_def)
  with assms(1,2) show ?thesis
    by (simp add: post_api_return_id_def okAdmin_eq update_return_def with_id_row[OF assms(5)]
        executed_def return_effect_eq)
qed

lemma return_iff:
  assumes "supplied_key req = Some (JStr (ADMIN_KEY env))" "params_id req = Some i"
  shows "(\<exists>b. fst (post_api_return_id env now req db) = Some (Response 200 (Book b)))
     \<longleftrightarrow> (\<exists>r \<in> set (books db). sint (r_id r) = i \<and> Borrowed r)"
proof (cases "\<exists>r \<in> set (books db). sint (r_id r) = i \<and> Borrowed r")
  case False
  note none = this
  show ?thesis
  proof (cases "in_int4 i")
    case True
    from return_conflict[OF assms True none] none show ?thesis by simp
  next
    case False
    from return_out_of_range[OF assms False] no_id_out_of_range[OF False] show ?thesis by auto
  qed
next
  case True
  then obtain r where r: "r \<in> set (books db)" "sint (r_id r) = i" "r_is_borrowed r = Some True"
    by (auto simp: Borrowed_def)
  then have "r \<in> set (books db)" "r_id r = r_id r \<and> r_is_borrowed r = Some True" by simp_all
  from sql_update_some[of r db "\<lambda>x. r_id x = r_id r \<and> r_is_borrowed x = Some True" "return_effect now", OF this]
  obtain r0 rs where "fst (sql_update (\<lambda>x. r_id x = r_id r \<and> r_is_borrowed x = Some True) (return_effect now) db) = return_effect now r0 # rs"
    by auto
  then have "\<exists>b. fst (post_api_return_id env now req db) = Some (Response 200 (Book b))"
    using assms
    by (cases "sql_update (\<lambda>x. r_id x = r_id r \<and> r_is_borrowed x = Some True) (return_effect now) db")
       (simp add: post_api_return_id_def okAdmin_eq update_return_def with_id_row[OF r(2)]
          executed_def return_effect_eq)
  with True show ?thesis by simp
qed

lemma return_success_part_000:
  assumes "x_admin_key req = Some (ADMIN_KEY env)" "params_id req = Some i"
    "distinct (map r_id (books db))" "r \<in> set (books db)" "sint (r_id r) = i" "Borrowed r"
  shows "post_api_return_id_part_000 env now req db =
    (Some (Response 200 (Row (return_effect now r))), replace_row r (return_effect now r) db)"
proof -
  have "sql_update (\<lambda>x. r_id x = r_id r \<and> r_is_borrowed x = Some True) (return_effect now) db
        = ([return_effect now r], replace_row r (return_effect now r) db)"
    using assms by (intro sql_update_key) (auto simp: Borrowed_def)
  with assms(1,2) show ?thesis
    by (simp add: post_api_return_id_part_000_def update_return_def with_id_row[OF assms(5)]
        executed_def return_effect_eq)
qed

lemma return_iff_part_000:
  assumes "x_admin_key req = Some (ADMIN_KEY env)" "params_id req = Some i"
  shows "(\<exists>r'. fst (post_api_return_id_part_000 env now req db) = Some (Response 200 (Row r')))
     \<longleftrightarrow> (\<exists>r \<in> set (books db). sint (r_id r) = i \<and> Borrowed r)"
proof (cases "\<exists>r \<in> set (books db). sint (r_id r) = i \<and> Borrowed r")
  case False
  note none = this
  show ?thesis
  proof (cases "in_int4 i")
    case True
    from return_conflict_part_000[OF assms True none] none show ?thesis by simp
  next
    case False
    from return_out_of_range_part_000[OF assms False] no_id_out_of_range[OF False]
    show ?thesis by auto
  qed
next
  case True
  then obtain r where r: "r \<in> set (books db)" "sint (r_id r) = i" "r_is_borrowed r = Some True"
    by (auto simp: Borrowed_def)
  then have "r \<in> set (books db)" "r_id r = r_id r \<and> r_is_borrowed r = Some True" by simp_all
  from sql_update_some[of r db "\<lambda>x. r_id x = r_id r \<and> r_is_borrowed x = Some True" "return_effect now", OF this]
  obtain r0 rs where "fst (sql_update (\<lambda>x. r_id x = r_id r \<and> r_is_borrowed x = Some True) (return_effect now) db) = return_effect now r0 # rs"
    by auto
  then have "\<exists>r'. fst (post_api_return_id_part_000 env now req db) = Some (Response 200 (Row r'))"
    using assms
    by (cases "sql_update (\<lambda>x. r_id x = r_id r \<and> r_is_borrowed x = Some True) (return_effect now) db")
       (simp add: post_api_return_id_part_000_def update_return_def with_id_row[OF r(2)]
          executed_def return_effect_eq)
  with True show ?thesis by simp
qed

text \<open>
  Borrow in server.js, for an id in the range of the column and a borrower that renders as
  a text without U+0000: it succeeds exactly when a record with the id is Available; on
  success the record is replaced by \<open>borrow_effect\<close> of it (Borrowed, the given name or
  \<open>unknown\<close>, borrowedAt the current time, returnedAt cleared) and the mapped record is
  returned. A second borrow of the same id then meets the conflict, whichever request the
  store served first. A borrower that cannot be rendered, or that the store cannot read,
  and an id outside the range are answered 500 and change nothing.
\<close>

lemma borrow_conflict:
  assumes "supplied_key req = Some (JStr (ADMIN_KEY env))" "params_id req = Some i" "in_int4 i"
   "call_toString (js_or (body_field borrower req) (Some (JStr (str ''unknown'')))) = Some b"
   "0 \<notin> set b"
   "\<not> (\<exists>r \<in> set (books db). sint (r_id r) = i \<and> Available r)"
  shows "post_api_borrow_id env now req db = (Some (Response 400 (Error ''not found or already borrowed'')), db)"
proof -
  have "sendable (Some b)" using assms(5) by (simp add: sendable_def)
  with assms show ?thesis
    by (simp add: post_api_borrow_id_def okAdmin_eq update_borrow_def with_id_in with_text_sendable
        executed_def no_row_update Available_def)
qed

lemma borrow_error:
  assumes "supplied_key req = Some (JStr (ADMIN_KEY env))" "params_id req = Some i"
   "\<not> (in_int4 i
        \<and> (\<exists>b. call_toString (js_or (body_field borrower req) (Some (JStr (str ''unknown'')))) = Some b
                \<and> 0 \<notin> set b))"
  shows "\<exists>e. post_api_borrow_id env now req db = (Some (Response 500 (ErrorMessage e)), db)"
proof (cases "call_toString (js_or (body_field borrower req) (Some (JStr (str ''unknown''))))")
  case None
  with assms(1) show ?thesis by (simp add: post_api_borrow_id_def okAdmin_eq)
next
  case (Some b)
  show ?thesis
  proof (cases "in_int4 i")
    case False
    with Some assms(1,2) show ?thesis
      by (simp add: post_api_borrow_id_def okAdmin_eq update_borrow_def with_id_out)
  next
    case True
    with Some assms(3) have "\<not> sendable (Some b)" by (simp add: sendable_def)
    with True Some assms(1,2) show ?thesis
      by (simp add: post_api_borrow_id_def okAdmin_eq update_borrow_def with_id_in with_text_refused)
  qed
qed

lemma borrow_success:
  assumes "supplied_key req = Some (JStr (ADMIN_KEY env))" "params_id req = Some i"
    "body_field borrower req = map_option JStr name" "sendable name"
    "distinct (map r_id (books db))" "r \<in> set (books db)" "sint (r_id r) = i" "Available r"
  shows "post_api_borrow_id env now req db =
    (Some (Response 200 (Book (mapRow (borrow_effect (utf8 (name_or_unknown name)) now r)))),
     replace_row r (borrow_effect (utf8 (name_or_unknown name)) now r) db)"
proof -
  have s: "sendable (Some (name_or_unknown name))"
    using assms(4) by (simp add: sendable_def name_sendable)
  have "sql_update (\<lambda>x. r_id x = r_id r \<and> r_is_borrowed x = Some False)
           (borrow_effect (utf8 (name_or_unknown name)) now) db
        = ([borrow_effect (utf8 (name_or_unknown name)) now r],
           replace_row r (borrow_effect (utf8 (name_or_unknown name)) now r) db)"
    using assms by (intro sql_update_key) (auto simp: Available_def)
  with assms(1,2,3) show ?thesis
    by (simp add: post_api_borrow_id_def okAdmin_eq update_borrow_def with_id_row[OF assms(7)]
        with_text_sendable[OF s] executed_def borrow_effect_eq borrower_name)
qed

lemma borrow_iff:
  assumes "supplied_key req = Some (JStr (ADMIN_KEY env))" "params_id req = Some i"
    "call_toString (js_or (body_field borrower req) (Some (JStr (str ''unknown'')))) = Some b"
    "0 \<notin> set b"
  shows "(\<exists>b. fst (post_api_borrow_id env now req db) = Some (Response 200 (Book b)))
     \<longleftrightarrow> (\<exists>r \<in> set (books db). sint (r_id r) = i \<and> Available r)"
proof (cases "\<exists>r \<in> set (books db). sint (r_id r) = i \<and> Available r")
  case False
  note none = this
  show ?thesis
  proof (cases "in_int4 i")
    case True
    from borrow_conflict[OF assms(1,2) True assms(3,4) none] none show ?thesis by simp
  next
    case False
    then have "\<not> (in_int4 i
        \<and> (\<exists>b. call_toString (js_or (body_field borrower req) (Some (JStr (str ''unknown'')))) = Some b
                \<and> 0 \<notin> set b))" by simp
    from borrow_error[OF assms(1,2) this, where now=now and db=db] no_id_out_of_range[OF False]
    show ?thesis by auto
  qed
next
  case True
  have s: "sendable (Some b)" using assms(4) by (simp add: sendable_def)
  from True obtain r where r: "r \<in> set (books db)" "sint (r_id r) = i" "r_is_borrowed r = Some False"
    by (auto simp: Available_def)
  then have "r \<in> set (books db)" "r_id r = r_id r \<and> r_is_borrowed r = Some False" by simp_all
  from sql_update_some[of r db "\<lambda>x. r_id x = r_id r \<and> r_is_borrowed x = Some False" "borrow_effect (utf8 b) now", OF this]
  obtain r0 rs where "fst (sql_update (\<lambda>x. r_id x = r_id r \<and> r_is_borrowed x = Some False) (borrow_effect (utf8 b) now) db) = borrow_effect (utf8 b) now r0 # rs"
    by auto
  then have "\<exists>b. fst (post_api_borrow_id env now req db) = Some (Response 200 (Book b))"
    using assms(1,2,3)
    by (cases "sql_update (\<lambda>x. r_id x = r_id r \<and> r_is_borrowed x = Some False) (borrow_effect (utf8 b) now) db")
       (simp add: post_api_borrow_id_def okAdmin_eq update_borrow_def with_id_row[OF r(2)]
          with_text_sendable[OF s] executed_def borrow_effect_eq)
  with True show ?thesis by simp
qed

lemma borrow_operation_server_js:
  assumes "supplied_key req = Some (JStr (ADMIN_KEY env))" "params_id req = Some i"
    "body_field borrower req = map_option JStr name" "sendable name"
  shows "((\<exists>b. fst (post_api_borrow_id env now req db) = Some (Response 200 (Book b)))
            \<longleftrightarrow> (\<exists>r \<in> set (books db). sint (r_id r) = i \<and> Available r))
       \<and> (\<forall>r \<in> set (books db).
             distinct (map r_id (books db)) \<longrightarrow> sint (r_id r) = i \<longrightarrow> Available r \<longrightarrow>
               post_api_borrow_id env now req db =
                 (Some (Response 200 (Book (mapRow (borrow_effect (utf8 (name_or_unknown name)) now r)))),
                  replace_row r (borrow_effect (utf8 (name_or_unknown name)) now r) db))
       \<and> mapRow (borrow_effect (utf8 (name_or_unknown name)) now r0) =
           (mapRow r0)\<lparr>b_isBorrowed := True, b_borrower := utf8 (name_or_unknown name),
                        b_borrowedAt := ISO now, b_returnedAt := Blank\<rparr>"
proof (intro conjI ballI impI)
  have "call_toString (js_or (body_field borrower req) (Some (JStr (str ''unknown''))))
          = Some (name_or_unknown name)"
    by (simp add: assms(3) borrower_name)
  moreover have "0 \<notin> set (name_or_unknown name)" using assms(4) by (simp add: name_sendable)
  ultimately
  show "(\<exists>b. fst (post_api_borrow_id env now req db) = Some (Response 200 (Book b)))
            \<longleftrightarrow> (\<exists>r \<in> set (books db). sint (r_id r) = i \<and> Available r)"
    using assms(1,2) by (intro borrow_iff)
next
  fix r
  assume "r \<in> set (books db)" "distinct (map r_id (books db))" "sint (r_id r) = i" "Available r"
  with assms show "post_api_borrow_id env now req db =
                 (Some (Response 200 (Book (mapRow (borrow_effect (utf8 (name_or_unknown name)) now r)))),
                  replace_row r (borrow_effect (utf8 (name_or_unknown name)) now r) db)"
    by (intro borrow_success)
next
  show "mapRow (borrow_effect (utf8 (name_or_unknown name)) now r0) =
           (mapRow r0)\<lparr>b_isBorrowed := True, b_borrower := utf8 (name_or_unknown name),
                        b_borrowedAt := ISO now, b_returnedAt := Blank\<rparr>"
    by (rule mapRow_borrow_effect)
qed

lemma second_borrow_conflicts:
  assumes "supplied_key req1 = Some (JStr (ADMIN_KEY env))" "params_id req1 = Some i"
    "body_field borrower req1 = map_option JStr name1" "sendable name1"
    "supplied_key req2 = Some (JStr (ADMIN_KEY env))" "params_id req2 = Some i"
    "body_field borrower req2 = map_option JStr name2" "sendable name2"
    "distinct (map r_id (books db))" "r \<in> set (books db)" "sint (r_id r) = i" "Available r"
  shows "\<exists>b db'. post_api_borrow_id env now1 req1 db = (Some (Response 200 (Book b)), db')
           \<and> b_borrower b = utf8 (name_or_unknown name1)
           \<and> post_api_borrow_id env now2 req2 db' =
               (Some (Response 400 (Error ''not found or already borrowed'')), db')"
proof -
  let ?r' = "borrow_effect (utf8 (name_or_unknown name1)) now1 r"
  let ?db' = "replace_row r ?r' db"
  have 1: "post_api_borrow_id env now1 req1 db = (Some (Response 200 (Book (mapRow ?r'))), ?db')"
    using assms by (intro borrow_success)
  have i: "in_int4 i" using assms(11) sint_in_int4[of "r_id r"] by simp
  have n: "\<not> (\<exists>x \<in> set (books ?db'). sint (r_id x) = i \<and> Available x)"
  proof
    assume "\<exists>x \<in> set (books ?db'). sint (r_id x) = i \<and> Available x"
    then obtain x where x: "x \<in> set (books ?db')" "sint (r_id x) = i" "Available x" by blast
    then have "x = ?r' \<or> (x \<in> set (books db) \<and> x \<noteq> r)"
      by (auto simp: replace_row_def split: if_splits)
    then show False
    proof
      assume "x = ?r'"
      with x(3) show False by (simp add: Available_def borrow_effect_def)
    next
      assume a: "x \<in> set (books db) \<and> x \<noteq> r"
      from x(2) assms(11) have "r_id x = r_id r" by (intro sint_inject) simp
      with a assms(9,10) show False by (auto simp: distinct_map inj_on_def)
    qed
  qed
  have "call_toString (js_or (body_field borrower req2) (Some (JStr (str ''unknown''))))
          = Some (name_or_unknown name2)"
    by (simp add: assms(7) borrower_name)
  moreover have "0 \<notin> set (name_or_unknown name2)" using assms(8) by (simp add: name_sendable)
  ultimately have 2: "post_api_borrow_id env now2 req2 ?db' =
      (Some (Response 400 (Error ''not found or already borrowed'')), ?db')"
    using assms(5,6) i n by (intro borrow_conflict)
  have "b_borrower (mapRow ?r') = utf8 (name_or_unknown name1)" by (simp add: mapRow_borrow_effect)
  with 1 2 show ?thesis by blast
qed

text \<open>
  Borrow in the second file, on an Available record: the same outcome but for returnedAt,
  which keeps the value it had. An id outside the range, and a borrower the store cannot
  read, leave the handler without a response.
\<close>

lemma borrower_name_part_000:
  "prepareValue ser (js_or (map_option JStr name) (Some (JStr (str ''unknown'')))) = Some (name_or_unknown name)"
  by (cases name) (auto simp: js_or_def name_or_unknown_def)

lemma borrow_conflict_part_000:
  assumes "x_admin_key req = Some (ADMIN_KEY env)" "params_id req = Some i" "in_int4 i"
   "sendable (prepareValue ser (js_or (body_field borrower req) (Some (JStr (str ''unknown'')))))"
   "\<not> (\<exists>r \<in> set (books db). sint (r_id r) = i \<and> Available r)"
  shows "post_api_borrow_id_part_000 env ser now req db = (Some (Response 400 (Error ''not found or already borrowed'')), db)"
  using assms
  by (simp add: post_api_borrow_id_part_000_def update_borrow_part_000_def with_id_in
      with_text_sendable executed_def no_row_update Available_def)

lemma borrow_error_part_000:
  assumes "x_admin_key req = Some (ADMIN_KEY env)" "params_id req = Some i"
   "\<not> (in_int4 i
        \<and> sendable (prepareValue ser (js_or (body_field borrower req) (Some (JStr (str ''unknown''))))))"
  shows "post_api_borrow_id_part_000 env ser now req db = (None, db)"
proof (cases "in_int4 i")
  case False
  with assms(1,2) show ?thesis
    by (simp add: post_api_borrow_id_part_000_def update_borrow_part_000_def with_id_out)
next
  case True
  with assms show ?thesis
    by (simp add: post_api_borrow_id_part_000_def update_borrow_part_000_def with_id_in
        with_text_refused)
qed

lemma borrow_success_part_000:
  assumes "x_admin_key req = Some (ADMIN_KEY env)" "params_id req = Some i"
    "body_field borrower req = map_option JStr name" "sendable name"
    "distinct (map r_id (books db))" "r \<in> set (books db)" "sint (r_id r) = i" "Available r"
  shows "post_api_borrow_id_part_000 env ser now req db =
    (Some (Response 200 (Row ((borrow_effect (utf8 (name_or_unknown name)) now r)
                                \<lparr>r_returned_at := r_returned_at r\<rparr>))),
     replace_row r ((borrow_effect (utf8 (name_or_unknown name)) now r)\<lparr>r_returned_at := r_returned_at r\<rparr>) db)"
proof -
  let ?f = "\<lambda>r. r\<lparr>r_is_borrowed := Some True, r_borrower := Some (utf8 (name_or_unknown name)),
                     r_borrowed_at := Some now\<rparr>"
  have s: "sendable (Some (name_or_unknown name))"
    using assms(4) by (simp add: sendable_def name_sendable)
  have e: "?f r = (borrow_effect (utf8 (name_or_unknown name)) now r)\<lparr>r_returned_at := r_returned_at r\<rparr>"
    by (simp add: borrow_effect_def)
  have "sql_update (\<lambda>x. r_id x = r_id r \<and> r_is_borrowed x = Some False) ?f db
        = ([?f r], replace_row r (?f r) db)"
    using assms by (intro sql_update_key) (auto simp: Available_def)
  with assms(1,2,3) show ?thesis
    by (simp add: post_api_borrow_id_part_000_def update_borrow_part_000_def
        with_id_row[OF assms(7)] with_text_sendable[OF s] executed_def borrower_name_part_000 e)
qed

subsection \<open>Create and update\<close>

text \<open>
  Create in server.js: a falsy title (absent, \<open>null\<close>, empty) is refused with 400
  and nothing is stored; otherwise, when the store accepts the four texts and the sequence
  has a next value, the row is stored under that value, which no record has, not
  borrowed, with author, category and description empty when they are not supplied. When
  the store does not accept a text, or the sequence is exhausted, the answer is 500 and
  nothing is stored.
\<close>

lemma create_invalid:
  assumes "supplied_key req = Some (JStr (ADMIN_KEY env))" "\<not> truthy (title (body_or_empty req))"
  shows "post_api_books env ser req db = (Some (Response 400 (Error ''title required'')), db)"
  using assms by (simp add: post_api_books_def okAdmin_eq Let_def)

lemma truthy_prepared:
  assumes "truthy v"
  shows "\<exists>t. prepareValue ser v = Some t"
  using assms by (cases "(ser, v)" rule: prepareValue.cases) auto

lemma prepared_default:
  "prepareValue ser (default_empty None) = Some []"
  "prepareValue ser (default_empty (Some (JStr s))) = Some s"
  by (simp_all add: default_empty_def)

lemma insert_accepted:
  assumes "sendable (Some t)" "sendable a" "sendable c" "sendable d"
    "store_inv db" "books_id_seq db \<le> 2147483647"
  shows "insert_books (Some t) a c d db =
     (Inr \<lparr>r_id = word_of_int (books_id_seq db), r_title = utf8 t, r_author = map_option utf8 a,
            r_category = map_option utf8 c, r_description = map_option utf8 d,
            r_is_borrowed = Some False, r_borrower = None, r_borrowed_at = None,
            r_returned_at = None\<rparr>,
      \<lparr>books = books db @
         [\<lparr>r_id = word_of_int (books_id_seq db), r_title = utf8 t, r_author = map_option utf8 a,
            r_category = map_option utf8 c, r_description = map_option utf8 d,
            r_is_borrowed = Some False, r_borrower = None, r_borrowed_at = None,
            r_returned_at = None\<rparr>],
       books_id_seq = books_id_seq db + 1\<rparr>)
     \<and> sint (word_of_int (books_id_seq db) :: int4) = books_id_seq db
     \<and> (word_of_int (books_id_seq db) :: int4) \<notin> set (map r_id (books db))"
proof -
  from assms(5,6) have r: "in_int4 (books_id_seq db)" by (simp add: store_inv_def in_int4_def)
  then have s: "sint (word_of_int (books_id_seq db) :: int4) = books_id_seq db"
    by (rule sint_word_of_int)
  have fresh: "(word_of_int (books_id_seq db) :: int4) \<notin> set (map r_id (books db))"
  proof
    assume "(word_of_int (books_id_seq db) :: int4) \<in> set (map r_id (books db))"
    then obtain x where "x \<in> set (books db)" "r_id x = word_of_int (books_id_seq db)" by auto
    with s assms(5) show False by (auto simp: store_inv_def)
  qed
  from assms(1-4,6) fresh have "insert_books (Some t) a c d db =
     (Inr \<lparr>r_id = word_of_int (books_id_seq db), r_title = utf8 t, r_author = map_option utf8 a,
            r_category = map_option utf8 c, r_description = map_option utf8 d,
            r_is_borrowed = Some False, r_borrower = None, r_borrowed_at = None,
            r_returned_at = None\<rparr>,
      \<lparr>books = books db @
         [\<lparr>r_id = word_of_int (books_id_seq db), r_title = utf8 t, r_author = map_option utf8 a,
            r_category = map_option utf8 c, r_description = map_option utf8 d,
            r_is_borrowed = Some False, r_borrower = None, r_borrowed_at = None,
            r_returned_at = None\<rparr>],
       books_id_seq = books_id_seq db + 1\<rparr>)"
    by (simp add: insert_books_def with_text_sendable Let_def)
  with s fresh show ?thesis by blast
qed

lemma insert_refused:
  assumes "\<not> (sendable t \<and> sendable a \<and> sendable c \<and> sendable d \<and> books_id_seq db \<le> 2147483647)"
  shows "insert_books t a c d db = (Inl data_exception, db)"
proof -
  consider "\<not> sendable t" | "sendable t" "\<not> sendable a" | "sendable t" "sendable a" "\<not> sendable c"
    | "sendable t" "sendable a" "sendable c" "\<not> sendable d"
    | "sendable t" "sendable a" "sendable c" "sendable d" "\<not> books_id_seq db \<le> 2147483647"
    using assms by blast
  then show ?thesis
    by cases (simp_all add: insert_books_def with_text_sendable with_text_refused Let_def)
qed

lemma create_valid:
  assumes "supplied_key req = Some (JStr (ADMIN_KEY env))" "truthy (title (body_or_empty req))"
    "sendable (supplied ser title req)" "sendable (supplied ser (default_empty \<circ> author) req)"
    "sendable (supplied ser (default_empty \<circ> category) req)"
    "sendable (supplied ser (default_empty \<circ> description) req)"
    "store_inv db" "books_id_seq db \<le> 2147483647"
  shows "\<exists>r. post_api_books env ser req db =
            (Some (Response 200 (Book (mapRow r))),
             \<lparr>books = books db @ [r], books_id_seq = books_id_seq db + 1\<rparr>)
          \<and> sint (r_id r) = books_id_seq db \<and> r_id r \<notin> set (map r_id (books db))
          \<and> map_option utf8 (supplied ser title req) = Some (r_title r)
          \<and> r_author r = map_option utf8 (supplied ser (default_empty \<circ> author) req)
          \<and> r_category r = map_option utf8 (supplied ser (default_empty \<circ> category) req)
          \<and> r_description r = map_option utf8 (supplied ser (default_empty \<circ> description) req)
          \<and> r_is_borrowed r = Some False \<and> r_borrower r = None
          \<and> r_borrowed_at r = None \<and> r_returned_at r = None"
proof -
  from truthy_prepared[OF assms(2)] obtain t where
    t: "prepareValue ser (title (body_or_empty req)) = Some t" by blast
  let ?a = "prepareValue ser (default_empty (author (body_or_empty req)))"
  let ?c = "prepareValue ser (default_empty (category (body_or_empty req)))"
  let ?d = "prepareValue ser (default_empty (description (body_or_empty req)))"
  let ?r = "\<lparr>r_id = word_of_int (books_id_seq db), r_title = utf8 t, r_author = map_option utf8 ?a,
            r_category = map_option utf8 ?c, r_description = map_option utf8 ?d,
            r_is_borrowed = Some False, r_borrower = None, r_borrowed_at = None,
            r_returned_at = None\<rparr>"
  from assms(3-6) t have "sendable (Some t)" "sendable ?a" "sendable ?c" "sendable ?d"
    by (simp_all add: supplied_def)
  from insert_accepted[OF this assms(7,8)]
  have i: "insert_books (Some t) ?a ?c ?d db =
             (Inr ?r, \<lparr>books = books db @ [?r], books_id_seq = books_id_seq db + 1\<rparr>)"
    and f: "sint (r_id ?r) = books_id_seq db" "r_id ?r \<notin> set (map r_id (books db))"
    by simp_all
  have "post_api_books env ser req db =
            (Some (Response 200 (Book (mapRow ?r))),
             \<lparr>books = books db @ [?r], books_id_seq = books_id_seq db + 1\<rparr>)"
    using assms(1,2) t i by (simp add: post_api_books_def okAdmin_eq Let_def)
  with t f show ?thesis by (intro exI[of _ ?r]) (simp add: supplied_def)
qed

lemma create_refused:
  assumes "supplied_key req = Some (JStr (ADMIN_KEY env))" "truthy (title (body_or_empty req))"
    "\<not> (sendable (supplied ser title req) \<and> sendable (supplied ser (default_empty \<circ> author) req)
        \<and> sendable (supplied ser (default_empty \<circ> category) req)
        \<and> sendable (supplied ser (default_empty \<circ> description) req)
        \<and> books_id_seq db \<le> 2147483647)"
  shows "post_api_books env ser req db =
           (Some (Response 500 (ErrorMessage (DatabaseError data_exception))), db)"
proof -
  from assms(3) have "insert_books (prepareValue ser (title (body_or_empty req)))
      (prepareValue ser (default_empty (author (body_or_empty req))))
      (prepareValue ser (default_empty (category (body_or_empty req))))
      (prepareValue ser (default_empty (description (body_or_empty req)))) db
     = (Inl data_exception, db)"
    by (intro insert_refused) (simp add: supplied_def)
  with assms(1,2) show ?thesis by (simp add: post_api_books_def okAdmin_eq Let_def)
qed

lemma create_dune: "post_api_books None (\<lambda>j. []) create_req empty_catalog
   = (Some (Response 200 (Book (mapRow dune))), shelf dune)"
  by (simp add: post_api_books_def okAdmin_def js_or_def body_field_def ADMIN_KEY_def
      body_or_empty_def default_empty_def insert_books_def with_text_def text_param_def
      utf8_def str_def empty_catalog_def Let_def)

text \<open>
  Create in the second file stores whatever title the store accepts, the empty one too.
\<close>

lemma create_part_000_stores:
  assumes "x_admin_key req = Some (ADMIN_KEY env)" "req_body req = Some b"
    "prepareValue ser (title b) = Some t" "sendable (Some t)"
    "sendable (prepareValue ser (default_empty (author b)))"
    "sendable (prepareValue ser (default_empty (category b)))"
    "sendable (prepareValue ser (default_empty (description b)))"
    "store_inv db" "books_id_seq db \<le> 2147483647"
  shows "post_api_books_part_000 env ser req db =
    (Some (Response 200 (Row
        \<lparr>r_id = word_of_int (books_id_seq db), r_title = utf8 t,
           r_author = map_option utf8 (prepareValue ser (default_empty (author b))),
           r_category = map_option utf8 (prepareValue ser (default_empty (category b))),
           r_description = map_option utf8 (prepareValue ser (default_empty (description b))),
           r_is_borrowed = Some False, r_borrower = None, r_borrowed_at = None,
           r_returned_at = None\<rparr>)),
     \<lparr>books = books db @
        [\<lparr>r_id = word_of_int (books_id_seq db), r_title = utf8 t,
           r_author = map_option utf8 (prepareValue ser (default_empty (author b))),
           r_category = map_option utf8 (prepareValue ser (default_empty (category b))),
           r_description = map_option utf8 (prepareValue ser (default_empty (description b))),
           r_is_borrowed = Some False, r_borrower = None, r_borrowed_at = None,
           r_returned_at = None\<rparr>],
       books_id_seq = books_id_seq db + 1\<rparr>)"
  using assms(1-3) insert_accepted[OF assms(4-9)]
  by (simp add: post_api_books_part_000_def)

text \<open>
  Update in server.js: on an id in the range of the column that no record has, on the id of
  a record, and with a parameter the store cannot read.
\<close>

lemma update_not_found:
  assumes "supplied_key req = Some (JStr (ADMIN_KEY env))" "params_id req = Some i" "in_int4 i"
    "sendable (supplied ser title req)" "sendable (supplied ser author req)"
    "sendable (supplied ser category req)" "sendable (supplied ser description req)"
    "\<forall>r \<in> set (books db). sint (r_id r) \<noteq> i"
  shows "put_api_books_id env ser req db = (Some (Response 404 (Error ''not found'')), db)"
proof -
  have "sql_update (\<lambda>r. r_id r = word_of_int i) f db = ([], db)" for f
    using assms(3,8) by (intro sql_update_none) (simp add: id_param)
  with assms(1-7) show ?thesis
    by (simp add: put_api_books_id_def okAdmin_eq update_fields_def with_id_in with_text_sendable
        executed_def supplied_def)
qed

lemma update_refused:
  assumes "supplied_key req = Some (JStr (ADMIN_KEY env))" "params_id req = Some i"
    "\<not> (in_int4 i \<and> sendable (supplied ser title req) \<and> sendable (supplied ser author req)
        \<and> sendable (supplied ser category req) \<and> sendable (supplied ser description req))"
  shows "put_api_books_id env ser req db =
           (Some (Response 500 (ErrorMessage (DatabaseError data_exception))), db)"
proof -
  let ?t = "supplied ser title req" and ?a = "supplied ser author req"
  let ?c = "supplied ser category req" and ?d = "supplied ser description req"
  consider "\<not> in_int4 i" | "in_int4 i" "\<not> sendable ?t" | "in_int4 i" "sendable ?t" "\<not> sendable ?a"
    | "in_int4 i" "sendable ?t" "sendable ?a" "\<not> sendable ?c"
    | "in_int4 i" "sendable ?t" "sendable ?a" "sendable ?c" "\<not> sendable ?d"
    using assms(3) by blast
  then have "update_fields (Some i) ?t ?a ?c ?d db = (Inl data_exception, db)"
    by cases
      (simp_all add: update_fields_def with_id_in with_id_out with_text_sendable with_text_refused)
  with assms(1,2) show ?thesis
    by (simp add: put_api_books_id_def okAdmin_eq supplied_def)
qed

lemma update_found:
  assumes "supplied_key req = Some (JStr (ADMIN_KEY env))" "params_id req = Some i"
    "sendable (supplied ser title req)" "sendable (supplied ser author req)"
    "sendable (supplied ser category req)" "sendable (supplied ser description req)"
    "distinct (map r_id (books db))" "r \<in> set (books db)" "sint (r_id r) = i"
  shows "put_api_books_id env ser req db =
     (Some (Response 200 (Book (mapRow
        (r\<lparr>r_title := (case supplied ser title req of None \<Rightarrow> r_title r | Some v \<Rightarrow> utf8 v),
           r_author := coalesce (map_option utf8 (supplied ser author req)) (r_author r),
           r_category := coalesce (map_option utf8 (supplied ser category req)) (r_category r),
           r_description := coalesce (map_option utf8 (supplied ser description req)) (r_description r)\<rparr>)))),
      replace_row r
        (r\<lparr>r_title := (case supplied ser title req of None \<Rightarrow> r_title r | Some v \<Rightarrow> utf8 v),
           r_author := coalesce (map_option utf8 (supplied ser author req)) (r_author r),
           r_category := coalesce (map_option utf8 (supplied ser category req)) (r_category r),
           r_description := coalesce (map_option utf8 (supplied ser description req)) (r_description r)\<rparr>) db)"
proof -
  from assms(1-6) sql_update_id[OF assms(7,8)] show ?thesis
    by (cases "prepareValue ser (title (body_or_empty req))")
       (simp_all add: put_api_books_id_def okAdmin_eq update_fields_def with_id_row[OF assms(9)]
          with_text_sendable executed_def supplied_def Let_def)
qed

subsection \<open>The admin check in the handlers\<close>

lemma unauthorized_handlers:
  assumes "supplied_key req \<noteq> Some (JStr (ADMIN_KEY env))"
  shows "post_api_books env ser req db = (Some (Response 401 (Error ''unauthorized'')), db)"
    "put_api_books_id env ser req db = (Some (Response 401 (Error ''unauthorized'')), db)"
    "delete_api_books_id env req db = (Some (Response 401 (Error ''unauthorized'')), db)"
    "post_api_borrow_id env now req db = (Some (Response 401 (Error ''unauthorized'')), db)"
    "post_api_return_id env now req db = (Some (Response 401 (Error ''unauthorized'')), db)"
  using assms
  by (simp_all add: post_api_books_def put_api_books_id_def delete_api_books_id_def
      post_api_borrow_id_def post_api_return_id_def okAdmin_eq unauthorized_def)

lemma authorized_create: 
  assumes "supplied_key req = Some (JStr (ADMIN_KEY env))"
  shows "fst (post_api_books env ser req db) \<noteq> Some (Response 401 p)"
  using assms
  by (auto simp: post_api_books_def okAdmin_eq Let_def split: prod.splits sum.splits)

lemma authorized_update:
  assumes "supplied_key req = Some (JStr (ADMIN_KEY env))"
  shows "fst (put_api_books_id env ser req db) \<noteq> Some (Response 401 p)"
  using assms
  by (auto simp: put_api_books_id_def okAdmin_eq Let_def split: prod.splits sum.splits list.splits)

lemma authorized_delete:
  assumes "supplied_key req = Some (JStr (ADMIN_KEY env))"
  shows "fst (delete_api_books_id env req db) \<noteq> Some (Response 401 p)"
  using assms
  by (auto simp: delete_api_books_id_def okAdmin_eq split: prod.splits sum.splits)

lemma authorized_borrow:
  assumes "supplied_key req = Some (JStr (ADMIN_KEY env))"
  shows "fst (post_api_borrow_id env now req db) \<noteq> Some (Response 401 p)"
  using assms
  by (auto simp: post_api_borrow_id_def okAdmin_eq split: prod.splits sum.splits list.splits option.splits)

lemma authorized_return:
  assumes "supplied_key req = Some (JStr (ADMIN_KEY env))"
  shows "fst (post_api_return_id env now req db) \<noteq> Some (Response 401 p)"
  using assms
  by (auto simp: post_api_return_id_def okAdmin_eq split: prod.splits sum.splits list.splits)

lemma header_part_000:
  "x_admin_key req \<noteq> Some (ADMIN_KEY env) \<Longrightarrow>
     post_api_books_part_000 env ser req db = (Some (Response 401 (Error ''unauthorized'')), db)
   \<and> post_api_borrow_id_part_000 env ser now req db = (Some (Response 401 (Error ''unauthorized'')), db)
   \<and> post_api_return_id_part_000 env now req db = (Some (Response 401 (Error ''unauthorized'')), db)"
  by (simp add: post_api_books_part_000_def post_api_borrow_id_part_000_def
      post_api_return_id_part_000_def)

lemma authorized_part_000:
  assumes "x_admin_key req = Some (ADMIN_KEY env)"
  shows "fst (post_api_books_part_000 env ser req db) \<noteq> Some (Response 401 p)"
    "fst (post_api_borrow_id_part_000 env ser now req db) \<noteq> Some (Response 401 p)"
    "fst (post_api_return_id_part_000 env now req db) \<noteq> Some (Response 401 p)"
  using assms
  by (auto simp: post_api_books_part_000_def post_api_borrow_id_part_000_def
      post_api_return_id_part_000_def split: prod.splits sum.splits list.splits option.splits)

lemma list_no_key:
  "fst (get_api_books lc req db) \<noteq> Some (Response 401 p)"
  "fst (get_api_books_part_000 req db) \<noteq> Some (Response 401 p)"
  by (auto simp: get_api_books_def get_api_books_part_000_def Let_def
      split: option.splits prod.splits sum.splits)

subsection \<open>\<open>like\<close> and substrings\<close>

text \<open>
  For a pattern \<open>%q%\<close> whose \<open>q\<close> has none of \<open>%\<close>, \<open>_\<close> and the
  backslash, \<open>like\<close> is the substring test.
\<close>

lemma like_percent_only: "like s [0x25]"
  by (induction s) simp_all

lemma like_plain_prefix:
  assumes "plain p"
  shows "like s (p @ [0x25]) \<longleftrightarrow> prefix p s"
  using assms
proof (induction p arbitrary: s)
  case Nil
  then show ?case by (simp add: like_percent_only del: like.simps)
next
  case (Cons c p)
  then have c: "c \<noteq> 0x25" "c \<noteq> 0x5F" "c \<noteq> 0x5C" and p: "plain p"
    by (auto simp: plain_def)
  show ?case
  proof (cases s)
    case Nil
    with c show ?thesis by simp
  next
    case (Cons d s')
    with c Cons.IH[OF p, of s'] show ?thesis by auto
  qed
qed

lemma like_percent:
  "like s (0x25 # ps) \<longleftrightarrow> (\<exists>k \<le> length s. like (drop k s) ps)"
proof (induction s)
  case Nil
  then show ?case by simp
next
  case (Cons c s)
  have "like (c # s) (0x25 # ps) \<longleftrightarrow> like (c # s) ps \<or> like s (0x25 # ps)"
    by simp
  also have "\<dots> \<longleftrightarrow> like (c # s) ps \<or> (\<exists>k \<le> length s. like (drop k s) ps)"
    using Cons.IH by simp
  also have "\<dots> \<longleftrightarrow> (\<exists>k \<le> length (c # s). like (drop k (c # s)) ps)"
  proof
    assume "like (c # s) ps \<or> (\<exists>k \<le> length s. like (drop k s) ps)"
    then show "\<exists>k \<le> length (c # s). like (drop k (c # s)) ps"
    proof
      assume "like (c # s) ps"
      then show ?thesis by (intro exI[of _ 0]) simp
    next
      assume "\<exists>k \<le> length s. like (drop k s) ps"
      then obtain k where "k \<le> length s" "like (drop k s) ps" by blast
      then show ?thesis by (intro exI[of _ "Suc k"]) simp
    qed
  next
    assume "\<exists>k \<le> length (c # s). like (drop k (c # s)) ps"
    then obtain k where k: "k \<le> length (c # s)" "like (drop k (c # s)) ps" by blast
    show "like (c # s) ps \<or> (\<exists>k \<le> length s. like (drop k s) ps)"
    proof (cases k)
      case 0
      with k show ?thesis by simp
    next
      case (Suc j)
      with k have "j \<le> length s" "like (drop j s) ps" by simp_all
      then show ?thesis by blast
    qed
  qed
  finally show ?case .
qed

lemma sublist_drop: "sublist p s \<longleftrightarrow> (\<exists>k \<le> length s. prefix p (drop k s))"
proof
  assume "sublist p s"
  then obtain u v where "s = u @ p @ v" by (auto simp: sublist_def)
  then have "length u \<le> length s" "prefix p (drop (length u) s)" by simp_all
  then show "\<exists>k \<le> length s. prefix p (drop k s)" by blast
next
  assume "\<exists>k \<le> length s. prefix p (drop k s)"
  then obtain k where "prefix p (drop k s)" by blast
  then obtain v where "drop k s = p @ v" by (auto simp: prefix_def)
  then have "s = take k s @ p @ v" by (metis append_take_drop_id)
  then show "sublist p s" unfolding sublist_def by blast
qed

lemma like_plain_infix:
  assumes "plain p"
  shows "like s (0x25 # p @ [0x25]) \<longleftrightarrow> sublist p s"
  using like_percent[of s "p @ [0x25]"] like_plain_prefix[OF assms] sublist_drop[of p s]
  by simp

text \<open>
  \<open>lower\<close> and the encoding keep the three characters of \<open>like\<close> and make no new
  one, so the pattern the store matches is \<open>%\<close>, the lower case of the query, \<open>%\<close>.
\<close>

lemma lower_char_meta:
  "lower_char lc c = 0x25 \<longleftrightarrow> c = 0x25"
  "lower_char lc c = 0x5F \<longleftrightarrow> c = 0x5F"
  "lower_char lc c = 0x5C \<longleftrightarrow> c = 0x5C"
  "0x25 = lower_char lc c \<longleftrightarrow> c = 0x25"
  "0x5F = lower_char lc c \<longleftrightarrow> c = 0x5F"
  "0x5C = lower_char lc c \<longleftrightarrow> c = 0x5C"
  by (auto simp: lower_char_def like_special_def)

lemma plain_lower: "plain (lower lc q) = plain q"
  by (simp add: plain_def lower_def image_iff lower_char_meta)

lemma plain_utf8: "plain (utf8 q) = plain q"
  by (auto simp: plain_def utf8_def)

lemma lower_pattern: "lower lc (0x25 # q @ [0x25]) = 0x25 # lower lc q @ [0x25]"
  by (simp add: lower_def lower_char_def like_special_def)

lemma lower_like_plain:
  assumes "plain q"
  shows "lower_like lc (Some s) (0x25 # q @ [0x25]) \<longleftrightarrow> contains_ci lc q s"
  using like_plain_infix[of "lower lc q" "lower lc s"] assms
  by (simp add: lower_like_def lower_pattern plain_lower contains_ci_def del: like.simps)

lemma no_trailing_escape: "\<not> trailing_escape (s @ [0x25])"
  by (induction s rule: trailing_escape.induct) auto

lemma search_pattern: "str ''%'' @ q @ str ''%'' = 0x25 # q @ [0x25]"
  by (simp add: str_def)

lemma search_pattern_no_trailing_escape:
  "\<not> trailing_escape (lower lc (utf8 (str ''%'' @ q @ str ''%'')))"
proof -
  have "lower lc (utf8 (str ''%'' @ q @ str ''%'')) = (0x25 # lower lc (utf8 q)) @ [0x25]"
    by (simp add: search_pattern utf8_def lower_def lower_char_def like_special_def)
  then show ?thesis by (simp only: no_trailing_escape not_False_eq_True)
qed

lemma where_matches:
  assumes "plain q" "q \<noteq> []"
  shows "(lower_like lc (Some (r_title r)) (0x25 # q @ [0x25])
          \<or> lower_like lc (r_author r) (0x25 # q @ [0x25])
          \<or> lower_like lc (r_category r) (0x25 # q @ [0x25])) \<longleftrightarrow> matches lc q (mapRow r)"
proof -
  have n: "\<not> contains_ci lc q []" using assms(2) by (simp add: contains_ci_def lower_def)
  have o: "lower_like lc col (0x25 # q @ [0x25]) \<longleftrightarrow> contains_ci lc q (or_empty col)" for col
  proof (cases col)
    case None
    with n show ?thesis by (simp add: lower_like_def or_empty_def)
  next
    case (Some s)
    with lower_like_plain[OF assms(1), of lc s] show ?thesis by (simp add: or_empty_def)
  qed
  show ?thesis by (simp only: o matches_def) (simp add: mapRow_def)
qed

text \<open>
  The search statement: with U+0000 in the query the store refuses the pattern; otherwise it
  selects by the pattern around the query in UTF-8, in the order of the ids.
\<close>

lemma select_like_refused:
  assumes "0 \<in> set q"
  shows "select_like lc (str ''%'' @ q @ str ''%'') db = (Inl data_exception, db)"
  using assms by (simp add: select_like_def text_param_def search_pattern)

lemma select_like_accepted:
  assumes "0 \<notin> set q"
  shows "select_like lc (str ''%'' @ q @ str ''%'') db =
     (Inr (sort_key (\<lambda>r. sint (r_id r))
             (filter (\<lambda>r. lower_like lc (Some (r_title r)) (0x25 # utf8 q @ [0x25])
                            \<or> lower_like lc (r_author r) (0x25 # utf8 q @ [0x25])
                            \<or> lower_like lc (r_category r) (0x25 # utf8 q @ [0x25]))
                (books db))), db)"
proof -
  have "utf8 (0x25 # q @ [0x25]) = 0x25 # utf8 q @ [0x25]" by (simp add: utf8_def)
  with assms show ?thesis by (simp add: select_like_def text_param_def search_pattern)
qed

lemma utf8_nul: "0 \<in> set (utf8 s) \<longleftrightarrow> 0 \<in> set s"
  by (auto simp: utf8_def)

lemma query_text:
  "call_toString (js_or (map_option JStr qs) (Some (JStr []))) = Some (or_empty qs)"
  by (cases qs) (auto simp: call_toString_def js_or_def or_empty_def)

lemma map_b_id: "map b_id (map mapRow rs) = map (\<lambda>r. sint (r_id r)) rs"
  by (simp add: mapRow_def)

lemma sorted_select: "sorted (map b_id (map mapRow (sort_key (\<lambda>r. sint (r_id r)) rs)))"
  by (simp only: map_b_id sorted_sort_key)

subsection \<open>Invariants of the reachable states\<close>

text \<open>
  What holds of the store before a statement and of the store the statement leaves when it
  runs holds of the store it leaves in any case: a parameter that is refused changes
  nothing.
\<close>

lemma with_id_keeps:
  assumes "P db" "\<And>i. P (snd (stmt i))"
  shows "P (snd (with_id p stmt db))"
  using assms by (simp add: snd_with_id split: option.splits)

lemma with_text_keeps:
  assumes "P db" "\<And>w. P (snd (stmt w))"
  shows "P (snd (with_text v stmt db))"
  using assms by (simp add: snd_with_text)

text \<open>
  The constraints of the schema hold in every state server.js reaches.
\<close>

lemma store_inv_sql_update:
  assumes "store_inv db" "\<And>r. r_id (f r) = r_id r"
  shows "store_inv (snd (executed (sql_update P f db)))"
proof -
  have "r_id \<circ> (\<lambda>r. if P r then f r else r) = r_id"
    using assms(2) by (auto simp: fun_eq_iff)
  then have m: "map r_id (map (\<lambda>r. if P r then f r else r) (books db)) = map r_id (books db)"
    by simp
  have "\<forall>r \<in> set (map (\<lambda>r. if P r then f r else r) (books db)). sint (r_id r) < books_id_seq db"
    using assms by (auto simp: store_inv_def)
  with m assms(1) show ?thesis
    by (simp add: store_inv_def sql_update_def snd_executed del: map_map set_map)
qed

lemma store_inv_insert:
  assumes "store_inv db"
  shows "store_inv (snd (insert_books t a c d db))"
proof -
  have "store_inv (snd
       (let i = books_id_seq db
        in if 2147483647 < i then (Inl data_exception, db)
           else
             (let db' = db\<lparr>books_id_seq := i + 1\<rparr>
              in case t' of
                   None \<Rightarrow> (Inl not_null_violation, db')
                 | Some v \<Rightarrow>
                     if word_of_int i \<in> set (map r_id (books db)) then (Inl unique_violation, db')
                     else
                       (let r = \<lparr>r_id = word_of_int i, r_title = v, r_author = a',
                                  r_category = c', r_description = d',
                                  r_is_borrowed = Some False, r_borrower = None,
                                  r_borrowed_at = None, r_returned_at = None\<rparr>
                        in (Inr r, db'\<lparr>books := books db @ [r]\<rparr>)))))" for t' a' c' d'
  proof (cases "2147483647 < books_id_seq db")
    case True
    with assms show ?thesis by (simp add: Let_def)
  next
    case False
    with assms have "in_int4 (books_id_seq db)" by (simp add: store_inv_def in_int4_def)
    then have "sint (word_of_int (books_id_seq db) :: int4) = books_id_seq db"
      by (rule sint_word_of_int)
    with assms False show ?thesis
      by (cases t') (auto simp: Let_def store_inv_def)
  qed
  then show ?thesis
    unfolding insert_books_def
    by (intro with_text_keeps[where P = store_inv] assms)
qed

lemma store_inv_delete:
  assumes "store_inv db"
  shows "store_inv (snd (delete_books p db))"
  unfolding delete_books_def
  using assms
  by (intro with_id_keeps[where P = store_inv])
     (auto simp: store_inv_def distinct_map_filter snd_executed)

lemma store_inv_handlers:
  assumes "store_inv db"
  shows "store_inv (snd (post_api_books env ser req db))"
    "store_inv (snd (put_api_books_id env ser req db))"
    "store_inv (snd (delete_api_books_id env req db))"
    "store_inv (snd (post_api_borrow_id env now req db))"
    "store_inv (snd (post_api_return_id env now req db))"
proof -
  show "store_inv (snd (post_api_books env ser req db))"
    using assms by (simp add: snd_create store_inv_insert)
  have "store_inv (snd (update_fields p t a c d db))" for p t a c d
    unfolding update_fields_def
    by (intro with_id_keeps[where P = store_inv] with_text_keeps[where P = store_inv]
          store_inv_sql_update assms) simp
  with assms show "store_inv (snd (put_api_books_id env ser req db))" by (simp add: snd_update)
  show "store_inv (snd (delete_api_books_id env req db))"
    using assms by (simp add: snd_delete store_inv_delete)
  have "store_inv (snd (update_borrow p b now db))" for p b
    unfolding update_borrow_def
    by (intro with_id_keeps[where P = store_inv] with_text_keeps[where P = store_inv]
          store_inv_sql_update assms) simp
  with assms show "store_inv (snd (post_api_borrow_id env now req db))"
    by (simp add: snd_borrow split: option.splits)
  have "store_inv (snd (update_return p now db))" for p
    unfolding update_return_def
    by (intro with_id_keeps[where P = store_inv] store_inv_sql_update assms) simp
  with assms show "store_inv (snd (post_api_return_id env now req db))" by (simp add: snd_return)
qed

lemma reachable_store_inv:
  assumes "reachable env ser db"
  shows "store_inv db"
  using assms
proof (induction rule: reachable.induct)
  case empty
  show ?case by (simp add: store_inv_def empty_catalog_def)
qed (simp_all add: store_inv_handlers)

text \<open>
  In every state server.js reaches each record is Available or Borrowed, so that a record
  is Available exactly when the mapped book says it is not borrowed.
\<close>

lemma states_known_sql_update:
  assumes "states_known db"
    "\<And>r. Available r \<or> Borrowed r \<Longrightarrow> Available (f r) \<or> Borrowed (f r)"
  shows "states_known (snd (executed (sql_update P f db)))"
  using assms by (auto simp: states_known_def sql_update_def snd_executed)

lemma states_known_insert:
  assumes "states_known db"
  shows "states_known (snd (insert_books t a c d db))"
proof -
  have "states_known (snd
       (let i = books_id_seq db
        in if 2147483647 < i then (Inl data_exception, db)
           else
             (let db' = db\<lparr>books_id_seq := i + 1\<rparr>
              in case t' of
                   None \<Rightarrow> (Inl not_null_violation, db')
                 | Some v \<Rightarrow>
                     if word_of_int i \<in> set (map r_id (books db)) then (Inl unique_violation, db')
                     else
                       (let r = \<lparr>r_id = word_of_int i, r_title = v, r_author = a',
                                  r_category = c', r_description = d',
                                  r_is_borrowed = Some False, r_borrower = None,
                                  r_borrowed_at = None, r_returned_at = None\<rparr>
                        in (Inr r, db'\<lparr>books := books db @ [r]\<rparr>)))))" for t' a' c' d'
    using assms by (cases t') (auto simp: Let_def states_known_def Available_def)
  then show ?thesis
    unfolding insert_books_def
    by (intro with_text_keeps[where P = states_known] assms)
qed

lemma states_known_handlers:
  assumes "states_known db"
  shows "states_known (snd (post_api_books env ser req db))"
    "states_known (snd (put_api_books_id env ser req db))"
    "states_known (snd (delete_api_books_id env req db))"
    "states_known (snd (post_api_borrow_id env now req db))"
    "states_known (snd (post_api_return_id env now req db))"
proof -
  show "states_known (snd (post_api_books env ser req db))"
    using assms by (simp add: snd_create states_known_insert)
  have "states_known (snd (update_fields p t a c d db))" for p t a c d
    unfolding update_fields_def
    by (intro with_id_keeps[where P = states_known] with_text_keeps[where P = states_known]
          states_known_sql_update assms)
       (simp add: Available_def Borrowed_def)
  with assms show "states_known (snd (put_api_books_id env ser req db))" by (simp add: snd_update)
  have "states_known (snd (delete_books p db))" for p
    unfolding delete_books_def
    using assms
    by (intro with_id_keeps[where P = states_known]) (auto simp: states_known_def snd_executed)
  with assms show "states_known (snd (delete_api_books_id env req db))" by (simp add: snd_delete)
  have "states_known (snd (update_borrow p b now db))" for p b
    unfolding update_borrow_def
    by (intro with_id_keeps[where P = states_known] with_text_keeps[where P = states_known]
          states_known_sql_update assms) (simp add: Borrowed_def)
  with assms show "states_known (snd (post_api_borrow_id env now req db))"
    by (simp add: snd_borrow split: option.splits)
  have "states_known (snd (update_return p now db))" for p
    unfolding update_return_def
    by (intro with_id_keeps[where P = states_known] states_known_sql_update assms)
       (simp add: Available_def)
  with assms show "states_known (snd (post_api_return_id env now req db))" by (simp add: snd_return)
qed

lemma reachable_states_known:
  assumes "reachable env ser db"
  shows "states_known db"
  using assms
proof (induction rule: reachable.induct)
  case empty
  show ?case by (simp add: states_known_def empty_catalog_def)
qed (simp_all add: states_known_handlers)

lemma reachable_available:
  assumes "reachable env ser db" "r \<in> set (books db)"
  shows "Available r \<longleftrightarrow> \<not> b_isBorrowed (mapRow r)"
  using reachable_states_known[OF assms(1)] assms(2)
  by (auto simp: states_known_def Available_def Borrowed_def mapRow_def)

text \<open>
  The invariant of the data model is kept by create, update, delete and return, and by a
  borrow whose borrower does not render as the empty string; so it holds in every state
  reached with borrowers named by text.
\<close>

lemma borrow_inv_row:
  "borrow_inv (mapRow r) \<longleftrightarrow>
     (r_is_borrowed r \<noteq> Some True \<and> or_empty (r_borrower r) = [])
   \<or> (r_is_borrowed r = Some True \<and> or_empty (r_borrower r) \<noteq> [])"
  by (auto simp: borrow_inv_def mapRow_def)

lemma catalog_inv_sql_update:
  assumes "catalog_inv db" "\<And>r. P r \<Longrightarrow> borrow_inv (mapRow r) \<Longrightarrow> borrow_inv (mapRow (f r))"
  shows "catalog_inv (snd (executed (sql_update P f db)))"
  using assms by (auto simp: catalog_inv_def sql_update_def snd_executed)

lemma catalog_inv_insert:
  assumes "catalog_inv db"
  shows "catalog_inv (snd (insert_books t a c d db))"
proof -
  have "catalog_inv (snd
       (let i = books_id_seq db
        in if 2147483647 < i then (Inl data_exception, db)
           else
             (let db' = db\<lparr>books_id_seq := i + 1\<rparr>
              in case t' of
                   None \<Rightarrow> (Inl not_null_violation, db')
                 | Some v \<Rightarrow>
                     if word_of_int i \<in> set (map r_id (books db)) then (Inl unique_violation, db')
                     else
                       (let r = \<lparr>r_id = word_of_int i, r_title = v, r_author = a',
                                  r_category = c', r_description = d',
                                  r_is_borrowed = Some False, r_borrower = None,
                                  r_borrowed_at = None, r_returned_at = None\<rparr>
                        in (Inr r, db'\<lparr>books := books db @ [r]\<rparr>)))))" for t' a' c' d'
    using assms
    by (cases t') (auto simp: Let_def catalog_inv_def borrow_inv_row or_empty_def)
  then show ?thesis
    unfolding insert_books_def
    by (intro with_text_keeps[where P = catalog_inv] assms)
qed

lemma catalog_inv_create:
  assumes "catalog_inv db"
  shows "catalog_inv (snd (post_api_books env ser req db))"
  using assms by (simp add: snd_create catalog_inv_insert)

lemma catalog_inv_update:
  assumes "catalog_inv db"
  shows "catalog_inv (snd (put_api_books_id env ser req db))"
proof -
  have "catalog_inv (snd (update_fields p t a c d db))" for p t a c d
    unfolding update_fields_def
    by (intro with_id_keeps[where P = catalog_inv] with_text_keeps[where P = catalog_inv]
          catalog_inv_sql_update assms) (simp add: borrow_inv_row)
  with assms show ?thesis by (simp add: snd_update)
qed

lemma catalog_inv_delete:
  assumes "catalog_inv db"
  shows "catalog_inv (snd (delete_api_books_id env req db))"
proof -
  have "catalog_inv (snd (delete_books p db))" for p
    unfolding delete_books_def
    using assms
    by (intro with_id_keeps[where P = catalog_inv]) (auto simp: catalog_inv_def snd_executed)
  with assms show ?thesis by (simp add: snd_delete)
qed

lemma catalog_inv_return:
  assumes "catalog_inv db"
  shows "catalog_inv (snd (post_api_return_id env now req db))"
proof -
  have "catalog_inv (snd (update_return p now db))" for p
    unfolding update_return_def
    by (intro with_id_keeps[where P = catalog_inv] catalog_inv_sql_update assms)
       (simp add: borrow_inv_row or_empty_def)
  with assms show ?thesis by (simp add: snd_return)
qed

lemma catalog_inv_borrow:
  assumes "catalog_inv db"
    "call_toString (js_or (body_field borrower req) (Some (JStr (str ''unknown'')))) \<noteq> Some []"
  shows "catalog_inv (snd (post_api_borrow_id env now req db))"
proof -
  have "catalog_inv (snd
          (with_text (Some b)
             (\<lambda>b'. executed
                (sql_update (\<lambda>r. r_id r = i \<and> r_is_borrowed r = Some False)
                   (\<lambda>r. r\<lparr>r_is_borrowed := Some True, r_borrower := b',
                           r_borrowed_at := Some now, r_returned_at := None\<rparr>) db)) db))"
    if "b \<noteq> []" for b i
  proof (cases "sendable (Some b)")
    case False
    with assms(1) show ?thesis by (simp add: snd_with_text)
  next
    case True
    have "catalog_inv (snd (executed
                (sql_update (\<lambda>r. r_id r = i \<and> r_is_borrowed r = Some False)
                   (\<lambda>r. r\<lparr>r_is_borrowed := Some True, r_borrower := Some (utf8 b),
                           r_borrowed_at := Some now, r_returned_at := None\<rparr>) db)))"
      using that
      by (intro catalog_inv_sql_update assms) (simp add: borrow_inv_row or_empty_def utf8_empty)
    with True show ?thesis by (simp add: snd_with_text)
  qed
  then have "catalog_inv (snd (update_borrow p (Some b) now db))" if "b \<noteq> []" for p b
    unfolding update_borrow_def using that
    by (intro with_id_keeps[where P = catalog_inv] assms) simp
  with assms show ?thesis by (auto simp: snd_borrow split: option.splits)
qed

lemma catalog_inv_empty: "catalog_inv empty_catalog"
  by (simp add: catalog_inv_def empty_catalog_def)

lemma reachable_text_catalog_inv:
  assumes "reachable_text env ser db"
  shows "catalog_inv db"
  using assms
proof (induction rule: reachable_text.induct)
  case empty
  show ?case by (rule catalog_inv_empty)
next
  case (borrow db req name now)
  then show ?case by (simp add: catalog_inv_borrow borrower_text_nonempty)
qed (simp_all add: catalog_inv_create catalog_inv_update catalog_inv_delete catalog_inv_return)

section \<open>The claims\<close>

text \<open>
  Claim C1. Borrow succeeds exactly when a record with the id exists and is Available, and
  on success sets the state to Borrowed, the borrower to the given name (\<open>unknown\<close> when
  it is absent or empty) and borrowedAt to the current time, clears returnedAt and returns
  the updated record. server.js does all of it for a name the store can read
  (\<open>borrow_operation_server_js\<close>). The borrow of the second file does not clear
  returnedAt: borrowing a book that was returned at instant 9 leaves \<open>returned_at = 9\<close>
  on the borrowed record, in the row it returns and in the store, where server.js returns
  and stores the record with returnedAt cleared.
\<close>

theorem borrow_part_000_keeps_returned_at:
  "post_api_borrow_id_part_000 None (\<lambda>j. []) 12 admin_req (shelf dune_back) =
     (Some (Response 200 (Row dune_again_stale)), shelf dune_again_stale)
   \<and> r_returned_at dune_again_stale = Some 9
   \<and> post_api_borrow_id None 12 admin_req (shelf dune_back) =
     (Some (Response 200 (Book (mapRow dune_again))), shelf dune_again)
   \<and> b_returnedAt (mapRow dune_again) = Blank"
  by (simp add: post_api_borrow_id_part_000_def post_api_borrow_id_def okAdmin_def js_or_def
      body_field_def ADMIN_KEY_def call_toString_def update_borrow_part_000_def update_borrow_def
      with_id_def in_int4_def with_text_def text_param_def utf8_def str_def executed_def
      sql_update_def mapRow_def mapTime_def)

text \<open>
  Claim C3, as amended. When the precondition of borrow fails (no record with the id is
  Available: the id is missing or the book is already Borrowed) or the precondition of
  return fails (no record with the id is Borrowed), the operation changes no record. When
  the id is in the range of the column \<open>id\<close> and, for borrow, the borrower can be sent
  to the store as a text (in server.js its \<open>toString()\<close> can be called, and in both
  files the text has no character U+0000), the answer has status 400 and one message,
  \<open>not found or already borrowed\<close> for borrow and \<open>not found or not borrowed\<close> for
  return, whichever the cause. Otherwise what fails is not the precondition: server.js
  answers 500 with the message of the error, and the handler of the second file, which
  catches no error, sends no response of its own.
\<close>

theorem conflict_no_mutation:
  assumes "params_id req = Some i"
  shows "(supplied_key req = Some (JStr (ADMIN_KEY env)) \<longrightarrow>
            (\<not> (\<exists>r \<in> set (books db). sint (r_id r) = i \<and> Available r) \<longrightarrow>
               (in_int4 i
                \<and> (\<exists>b. call_toString (js_or (body_field borrower req) (Some (JStr (str ''unknown''))))
                            = Some b \<and> 0 \<notin> set b) \<longrightarrow>
                  post_api_borrow_id env now req db =
                    (Some (Response 400 (Error ''not found or already borrowed'')), db))
             \<and> (\<not> (in_int4 i
                    \<and> (\<exists>b. call_toString (js_or (body_field borrower req) (Some (JStr (str ''unknown''))))
                                = Some b \<and> 0 \<notin> set b)) \<longrightarrow>
                  (\<exists>e. post_api_borrow_id env now req db =
                          (Some (Response 500 (ErrorMessage e)), db))))
          \<and> (\<not> (\<exists>r \<in> set (books db). sint (r_id r) = i \<and> Borrowed r) \<longrightarrow>
               (in_int4 i \<longrightarrow>
                  post_api_return_id env now req db =
                    (Some (Response 400 (Error ''not found or not borrowed'')), db))
             \<and> (\<not> in_int4 i \<longrightarrow>
                  post_api_return_id env now req db =
                    (Some (Response 500 (ErrorMessage (DatabaseError data_exception))), db))))
       \<and> (x_admin_key req = Some (ADMIN_KEY env) \<longrightarrow>
            (\<not> (\<exists>r \<in> set (books db). sint (r_id r) = i \<and> Available r) \<longrightarrow>
               (in_int4 i
                \<and> sendable (prepareValue ser (js_or (body_field borrower req) (Some (JStr (str ''unknown''))))) \<longrightarrow>
                  post_api_borrow_id_part_000 env ser now req db =
                    (Some (Response 400 (Error ''not found or already borrowed'')), db))
             \<and> (\<not> (in_int4 i
                    \<and> sendable (prepareValue ser (js_or (body_field borrower req) (Some (JStr (str ''unknown'')))))) \<longrightarrow>
                  post_api_borrow_id_part_000 env ser now req db = (None, db)))
          \<and> (\<not> (\<exists>r \<in> set (books db). sint (r_id r) = i \<and> Borrowed r) \<longrightarrow>
               (in_int4 i \<longrightarrow>
                  post_api_return_id_part_000 env now req db =
                    (Some (Response 400 (Error ''not found or not borrowed'')), db))
             \<and> (\<not> in_int4 i \<longrightarrow> post_api_return_id_part_000 env now req db = (None, db))))"
proof (intro conjI impI)
  assume k: "supplied_key req = Some (JStr (ADMIN_KEY env))"
    and n: "\<not> (\<exists>r \<in> set (books db). sint (r_id r) = i \<and> Available r)"
    and "in_int4 i
          \<and> (\<exists>b. call_toString (js_or (body_field borrower req) (Some (JStr (str ''unknown''))))
                      = Some b \<and> 0 \<notin> set b)"
  then obtain b where "in_int4 i"
    "call_toString (js_or (body_field borrower req) (Some (JStr (str ''unknown'')))) = Some b"
    "0 \<notin> set b" by blast
  from borrow_conflict[OF k assms this n]
  show "post_api_borrow_id env now req db =
      (Some (Response 400 (Error ''not found or already borrowed'')), db)" .
next
  assume "supplied_key req = Some (JStr (ADMIN_KEY env))"
    "\<not> (in_int4 i
         \<and> (\<exists>b. call_toString (js_or (body_field borrower req) (Some (JStr (str ''unknown''))))
                     = Some b \<and> 0 \<notin> set b))"
  then show "\<exists>e. post_api_borrow_id env now req db = (Some (Response 500 (ErrorMessage e)), db)"
    using assms by (intro borrow_error)
next
  assume "supplied_key req = Some (JStr (ADMIN_KEY env))"
    "\<not> (\<exists>r \<in> set (books db). sint (r_id r) = i \<and> Borrowed r)" "in_int4 i"
  with assms show "post_api_return_id env now req db =
      (Some (Response 400 (Error ''not found or not borrowed'')), db)"
    by (intro return_conflict)
next
  assume "supplied_key req = Some (JStr (ADMIN_KEY env))" "\<not> in_int4 i"
  with assms show "post_api_return_id env now req db =
      (Some (Response 500 (ErrorMessage (DatabaseError data_exception))), db)"
    by (intro return_out_of_range)
next
  assume "x_admin_key req = Some (ADMIN_KEY env)"
    "\<not> (\<exists>r \<in> set (books db). sint (r_id r) = i \<and> Available r)"
    "in_int4 i
      \<and> sendable (prepareValue ser (js_or (body_field borrower req) (Some (JStr (str ''unknown'')))))"
  with assms show "post_api_borrow_id_part_000 env ser now req db =
      (Some (Response 400 (Error ''not found or already borrowed'')), db)"
    by (intro borrow_conflict_part_000) simp_all
next
  assume "x_admin_key req = Some (ADMIN_KEY env)"
    "\<not> (in_int4 i
         \<and> sendable (prepareValue ser (js_or (body_field borrower req) (Some (JStr (str ''unknown''))))))"
  with assms show "post_api_borrow_id_part_000 env ser now req db = (None, db)"
    by (intro borrow_error_part_000)
next
  assume "x_admin_key req = Some (ADMIN_KEY env)"
    "\<not> (\<exists>r \<in> set (books db). sint (r_id r) = i \<and> Borrowed r)" "in_int4 i"
  with assms show "post_api_return_id_part_000 env now req db =
      (Some (Response 400 (Error ''not found or not borrowed'')), db)"
    by (intro return_conflict_part_000)
next
  assume "x_admin_key req = Some (ADMIN_KEY env)" "\<not> in_int4 i"
  with assms show "post_api_return_id_part_000 env now req db = (None, db)"
    by (intro return_out_of_range_part_000)
qed

text \<open>
  The claim as it was stated fails. In server.js a borrow of a Borrowed book whose borrower
  is \<open>{"toString": 1}\<close>, or a text with the character U+0000, is answered 500, and so
  are a borrow and a return of the id 2147483648, which no record has. In the second file
  the handlers send no response for the last three.
\<close>

theorem conflict_no_mutation_counterexample:
  "\<not> (\<exists>r \<in> set (books (shelf dune_out)). sint (r_id r) = 1 \<and> Available r)
   \<and> post_api_borrow_id None 5 opaque_borrow_req (shelf dune_out) =
       (Some (Response 500 (ErrorMessage TypeError)), shelf dune_out)
   \<and> post_api_borrow_id None 5 nul_borrow_req (shelf dune_out) =
       (Some (Response 500 (ErrorMessage (DatabaseError data_exception))), shelf dune_out)
   \<and> post_api_borrow_id_part_000 None (\<lambda>j. []) 5 nul_borrow_req (shelf dune_out) =
       (None, shelf dune_out)
   \<and> \<not> (\<exists>r \<in> set (books (shelf dune_out)). sint (r_id r) = 2147483648)
   \<and> post_api_borrow_id None 5 big_id_req (shelf dune_out) =
       (Some (Response 500 (ErrorMessage (DatabaseError data_exception))), shelf dune_out)
   \<and> post_api_return_id None 5 big_id_req (shelf dune_out) =
       (Some (Response 500 (ErrorMessage (DatabaseError data_exception))), shelf dune_out)
   \<and> post_api_borrow_id_part_000 None (\<lambda>j. []) 5 big_id_req (shelf dune_out) =
       (None, shelf dune_out)
   \<and> post_api_return_id_part_000 None 5 big_id_req (shelf dune_out) = (None, shelf dune_out)"
  by (simp add: post_api_borrow_id_def post_api_return_id_def post_api_borrow_id_part_000_def
      post_api_return_id_part_000_def okAdmin_def js_or_def body_field_def ADMIN_KEY_def
      call_toString_def update_borrow_def update_return_def update_borrow_part_000_def
      with_id_def in_int4_def with_text_def text_param_def str_def Available_def)

theorem conflict_no_mutation_witness:
  "post_api_borrow_id None 5 admin_req (shelf dune_out) =
     (Some (Response 400 (Error ''not found or already borrowed'')), shelf dune_out)
   \<and> post_api_borrow_id None 5 admin_req empty_catalog =
     (Some (Response 400 (Error ''not found or already borrowed'')), empty_catalog)
   \<and> post_api_return_id None 5 admin_req (shelf dune) =
     (Some (Response 400 (Error ''not found or not borrowed'')), shelf dune)
   \<and> post_api_borrow_id_part_000 None (\<lambda>j. []) 5 admin_req empty_catalog =
     (Some (Response 400 (Error ''not found or already borrowed'')), empty_catalog)
   \<and> post_api_return_id_part_000 None 5 admin_req empty_catalog =
     (Some (Response 400 (Error ''not found or not borrowed'')), empty_catalog)
   \<and> (\<exists>e. post_api_borrow_id None 5 opaque_borrow_req (shelf dune_out) =
             (Some (Response 500 (ErrorMessage e)), shelf dune_out))
   \<and> post_api_return_id None 5 big_id_req empty_catalog =
       (Some (Response 500 (ErrorMessage (DatabaseError data_exception))), empty_catalog)
   \<and> post_api_borrow_id_part_000 None (\<lambda>j. []) 5 nul_borrow_req (shelf dune_out) =
       (None, shelf dune_out)
   \<and> post_api_return_id_part_000 None 5 big_id_req empty_catalog = (None, empty_catalog)"
proof -
  have id: "params_id admin_req = Some 1" "params_id opaque_borrow_req = Some 1"
    "params_id nul_borrow_req = Some 1" "params_id big_id_req = Some 2147483648" by simp_all
  have r: "in_int4 1" "\<not> in_int4 2147483648" by (simp_all add: in_int4_def)
  have k: "x_admin_key admin_req = Some (ADMIN_KEY None)"
    "x_admin_key nul_borrow_req = Some (ADMIN_KEY None)"
    "x_admin_key big_id_req = Some (ADMIN_KEY None)"
    "supplied_key opaque_borrow_req = Some (JStr (ADMIN_KEY None))"
    "supplied_key big_id_req = Some (JStr (ADMIN_KEY None))"
    by (simp_all add: ADMIN_KEY_def supplied_key_def str_empty)
  have n: "\<exists>b. call_toString (js_or (body_field borrower admin_req) (Some (JStr (str ''unknown''))))
                 = Some b \<and> 0 \<notin> set b"
    by (simp add: call_toString_def js_or_def body_field_def str_def)
  have o: "\<not> (\<exists>b. call_toString (js_or (body_field borrower opaque_borrow_req)
                        (Some (JStr (str ''unknown'')))) = Some b \<and> 0 \<notin> set b)"
    by (simp add: call_toString_def js_or_def body_field_def)
  have s: "sendable (prepareValue (\<lambda>j. []) (js_or (body_field borrower admin_req)
                        (Some (JStr (str ''unknown'')))))"
    "\<not> sendable (prepareValue (\<lambda>j. []) (js_or (body_field borrower nul_borrow_req)
                        (Some (JStr (str ''unknown'')))))"
    by (simp_all add: js_or_def body_field_def sendable_def str_def)
  have a: "\<not> (\<exists>r \<in> set (books (shelf dune_out)). sint (r_id r) = 1 \<and> Available r)"
    by (simp add: Available_def)
  have b: "\<not> (\<exists>r \<in> set (books (shelf dune)). sint (r_id r) = 1 \<and> Borrowed r)"
    by (simp add: Borrowed_def)
  have e: "\<not> (\<exists>r \<in> set (books empty_catalog). sint (r_id r) = j \<and> Available r)"
     "\<not> (\<exists>r \<in> set (books empty_catalog). sint (r_id r) = j \<and> Borrowed r)" for j
    by (simp_all add: empty_catalog_def)
  from conflict_no_mutation[OF id(1), where env=None and db="shelf dune_out" and now=5]
    admin_req_key r(1) n a
  have 1: "post_api_borrow_id None 5 admin_req (shelf dune_out) =
     (Some (Response 400 (Error ''not found or already borrowed'')), shelf dune_out)" by blast
  from conflict_no_mutation[OF id(1), where env=None and db=empty_catalog and now=5]
    admin_req_key r(1) n e
  have 0: "post_api_borrow_id None 5 admin_req empty_catalog =
     (Some (Response 400 (Error ''not found or already borrowed'')), empty_catalog)" by blast
  from conflict_no_mutation[OF id(1), where env=None and db="shelf dune" and now=5]
    admin_req_key r(1) b
  have 2: "post_api_return_id None 5 admin_req (shelf dune) =
     (Some (Response 400 (Error ''not found or not borrowed'')), shelf dune)" by blast
  from conflict_no_mutation[OF id(1), where env=None and db=empty_catalog and now=5 and ser="\<lambda>j. []"]
    k(1) r(1) s(1) e
  have 3: "post_api_borrow_id_part_000 None (\<lambda>j. []) 5 admin_req empty_catalog =
     (Some (Response 400 (Error ''not found or already borrowed'')), empty_catalog)"
    "post_api_return_id_part_000 None 5 admin_req empty_catalog =
     (Some (Response 400 (Error ''not found or not borrowed'')), empty_catalog)" by blast+
  from conflict_no_mutation[OF id(2), where env=None and db="shelf dune_out" and now=5] k(4) o a
  have 4: "\<exists>e. post_api_borrow_id None 5 opaque_borrow_req (shelf dune_out) =
             (Some (Response 500 (ErrorMessage e)), shelf dune_out)" by blast
  from conflict_no_mutation[OF id(4), where env=None and db=empty_catalog and now=5 and ser="\<lambda>j. []"]
    k(3,5) r(2) e
  have 5: "post_api_return_id None 5 big_id_req empty_catalog =
       (Some (Response 500 (ErrorMessage (DatabaseError data_exception))), empty_catalog)"
    "post_api_return_id_part_000 None 5 big_id_req empty_catalog = (None, empty_catalog)"
    by blast+
  from conflict_no_mutation[OF id(3), where env=None and db="shelf dune_out" and now=5 and ser="\<lambda>j. []"]
    k(2) s(2) a
  have 6: "post_api_borrow_id_part_000 None (\<lambda>j. []) 5 nul_borrow_req (shelf dune_out) =
       (None, shelf dune_out)" by blast
  from 0 1 2 3 4 5 6 show ?thesis by blast
qed

text \<open>
  Claim C4. Return succeeds exactly when a record with the id exists and is Borrowed. On
  success the record becomes Available with an empty borrower and returnedAt the current
  time, borrowedAt and every other field stay, no other record changes, and the updated
  record is returned (mapped in server.js, as the row in the second file).
\<close>

theorem return_operation:
  assumes "params_id req = Some i"
  shows "(supplied_key req = Some (JStr (ADMIN_KEY env)) \<longrightarrow>
            ((\<exists>b. fst (post_api_return_id env now req db) = Some (Response 200 (Book b)))
               \<longleftrightarrow> (\<exists>r \<in> set (books db). sint (r_id r) = i \<and> Borrowed r))
          \<and> (\<forall>r \<in> set (books db).
                distinct (map r_id (books db)) \<longrightarrow> sint (r_id r) = i \<longrightarrow> Borrowed r \<longrightarrow>
                  post_api_return_id env now req db =
                    (Some (Response 200 (Book (mapRow (return_effect now r)))),
                     replace_row r (return_effect now r) db)))
       \<and> (x_admin_key req = Some (ADMIN_KEY env) \<longrightarrow>
            ((\<exists>r'. fst (post_api_return_id_part_000 env now req db) = Some (Response 200 (Row r')))
               \<longleftrightarrow> (\<exists>r \<in> set (books db). sint (r_id r) = i \<and> Borrowed r))
          \<and> (\<forall>r \<in> set (books db).
                distinct (map r_id (books db)) \<longrightarrow> sint (r_id r) = i \<longrightarrow> Borrowed r \<longrightarrow>
                  post_api_return_id_part_000 env now req db =
                    (Some (Response 200 (Row (return_effect now r))),
                     replace_row r (return_effect now r) db)))
       \<and> mapRow (return_effect now r0) =
           (mapRow r0)\<lparr>b_isBorrowed := False, b_borrower := [], b_returnedAt := ISO now\<rparr>"
proof (intro conjI impI ballI)
  assume "supplied_key req = Some (JStr (ADMIN_KEY env))"
  then show "(\<exists>b. fst (post_api_return_id env now req db) = Some (Response 200 (Book b)))
               \<longleftrightarrow> (\<exists>r \<in> set (books db). sint (r_id r) = i \<and> Borrowed r)"
    using assms by (rule return_iff)
next
  fix r
  assume "supplied_key req = Some (JStr (ADMIN_KEY env))" "r \<in> set (books db)"
    "distinct (map r_id (books db))" "sint (r_id r) = i" "Borrowed r"
  then show "post_api_return_id env now req db =
      (Some (Response 200 (Book (mapRow (return_effect now r)))), replace_row r (return_effect now r) db)"
    using assms by (intro return_success)
next
  assume "x_admin_key req = Some (ADMIN_KEY env)"
  then show "(\<exists>r'. fst (post_api_return_id_part_000 env now req db) = Some (Response 200 (Row r')))
               \<longleftrightarrow> (\<exists>r \<in> set (books db). sint (r_id r) = i \<and> Borrowed r)"
    using assms by (rule return_iff_part_000)
next
  fix r
  assume "x_admin_key req = Some (ADMIN_KEY env)" "r \<in> set (books db)"
    "distinct (map r_id (books db))" "sint (r_id r) = i" "Borrowed r"
  then show "post_api_return_id_part_000 env now req db =
      (Some (Response 200 (Row (return_effect now r))), replace_row r (return_effect now r) db)"
    using assms by (intro return_success_part_000)
next
  show "mapRow (return_effect now r0) =
           (mapRow r0)\<lparr>b_isBorrowed := False, b_borrower := [], b_returnedAt := ISO now\<rparr>"
    by (rule mapRow_return_effect)
qed

theorem return_operation_witness:
  "post_api_return_id None 9 admin_req (shelf dune_out) =
     (Some (Response 200 (Book \<lparr>b_id = 1, b_title = str ''Dune'', b_author = str ''Herbert'',
        b_category = [], b_description = [], b_isBorrowed = False, b_borrower = [],
        b_borrowedAt = ISO 3, b_returnedAt = ISO 9\<rparr>)), shelf dune_back)
   \<and> post_api_return_id_part_000 None 9 admin_req (shelf dune_out) =
     (Some (Response 200 (Row dune_back)), shelf dune_back)"
proof -
  have id: "params_id admin_req = Some 1" by simp
  have k: "x_admin_key admin_req = Some (ADMIN_KEY None)" by (simp add: ADMIN_KEY_def)
  have r: "dune_out \<in> set (books (shelf dune_out))" "distinct (map r_id (books (shelf dune_out)))"
    "sint (r_id dune_out) = 1" "Borrowed dune_out"
    by (simp_all add: Borrowed_def)
  from return_operation[OF id, where env=None and db="shelf dune_out" and now=9] admin_req_key k r
  have "post_api_return_id None 9 admin_req (shelf dune_out) =
          (Some (Response 200 (Book (mapRow (return_effect 9 dune_out)))),
           replace_row dune_out (return_effect 9 dune_out) (shelf dune_out))"
    and "post_api_return_id_part_000 None 9 admin_req (shelf dune_out) =
          (Some (Response 200 (Row (return_effect 9 dune_out))),
           replace_row dune_out (return_effect 9 dune_out) (shelf dune_out))"
    by blast+
  then show ?thesis
    by (simp add: return_effect_def replace_row_def mapRow_def or_empty_def mapTime_def)
qed

text \<open>
  Claim C5. In every state reached from the empty catalog by create, update, delete,
  borrow and return, each book is either not borrowed with an empty borrower or borrowed
  with a non-empty borrower. server.js keeps this as long as borrowers are named by text
  (\<open>reachable_text_catalog_inv\<close>), but a borrow whose body is
  \<open>{"borrower": []}\<close> breaks it: the empty array is truthy, so the default
  \<open>unknown\<close> is not taken, and its \<open>toString()\<close> is the empty string. The book
  is then borrowed with an empty borrower, in a reachable state.
\<close>

theorem borrow_array_breaks_invariant:
  "post_api_borrow_id None 3 array_borrow_req (shelf dune) =
     (Some (Response 200 (Book (mapRow dune_nobody))), shelf dune_nobody)
   \<and> b_isBorrowed (mapRow dune_nobody) \<and> b_borrower (mapRow dune_nobody) = []
   \<and> \<not> borrow_inv (mapRow dune_nobody)
   \<and> reachable None (\<lambda>j. []) (shelf dune)
   \<and> reachable None (\<lambda>j. []) (shelf dune_nobody)"
proof -
  have b: "post_api_borrow_id None 3 array_borrow_req (shelf dune) =
     (Some (Response 200 (Book (mapRow dune_nobody))), shelf dune_nobody)"
    by (simp add: post_api_borrow_id_def okAdmin_def js_or_def body_field_def ADMIN_KEY_def
        call_toString_def update_borrow_def with_id_def in_int4_def with_text_def text_param_def
        utf8_def str_def executed_def sql_update_def)
  have "reachable None (\<lambda>j. []) (snd (post_api_books None (\<lambda>j. []) create_req empty_catalog))"
    by (intro reachable.create reachable.empty)
  then have d: "reachable None (\<lambda>j. []) (shelf dune)" by (simp only: create_dune snd_conv)
  then have "reachable None (\<lambda>j. []) (snd (post_api_borrow_id None 3 array_borrow_req (shelf dune)))"
    by (rule reachable.borrow)
  then have r: "reachable None (\<lambda>j. []) (shelf dune_nobody)" by (simp only: b snd_conv)
  have "\<not> borrow_inv (mapRow dune_nobody)"
    by (simp add: borrow_inv_def mapRow_def or_empty_def)
  with b d r show ?thesis by (simp add: mapRow_def or_empty_def)
qed

text \<open>
  Claim C6, as amended. The list of server.js trims the query
  (\<open>String.prototype.trim\<close>); \<open>q\<close> is the trimmed query as the store receives it.
  When the trimmed query is empty the list returns all books ordered by ascending id. When
  it is not empty and has no character U+0000 the answer is a success with status 200, also
  when no book is returned, and the books are ordered by ascending id; when it has moreover
  none of the characters \<open>%\<close>, \<open>_\<close> and backslash, they are exactly the books in whose
  title, author or category the trimmed query occurs as a substring, letters compared
  without case. A query with the character U+0000 is answered 500. The list of the second
  file returns all books ordered by ascending id, whatever the query.
\<close>

theorem list_search:
  assumes "query_q req = map_option JStr qs" "q = utf8 (trim (or_empty qs))"
  shows "(q = [] \<longrightarrow>
            (\<exists>bs. get_api_books lc req db = (Some (Response 200 (Books bs)), db)
               \<and> sorted (map b_id bs) \<and> mset bs = mset (map mapRow (books db))))
       \<and> (q \<noteq> [] \<longrightarrow> 0 \<notin> set q \<longrightarrow>
            (\<exists>bs. get_api_books lc req db = (Some (Response 200 (Books bs)), db)
               \<and> sorted (map b_id bs)
               \<and> (plain q \<longrightarrow> mset bs = mset (filter (matches lc q) (map mapRow (books db))))))
       \<and> (0 \<in> set q \<longrightarrow>
            get_api_books lc req db =
              (Some (Response 500 (ErrorMessage (DatabaseError data_exception))), db))
       \<and> (\<exists>rs. get_api_books_part_000 req db = (Some (Response 200 (Rows rs)), db)
            \<and> sorted (map (\<lambda>r. sint (r_id r)) rs) \<and> mset rs = mset (books db))"
proof (intro conjI impI)
  let ?t = "trim (or_empty qs)"
  assume "q = []"
  with assms(2) have "utf8 ?t = []" by simp
  then have "?t = []" by (simp add: utf8_empty)
  with assms have "get_api_books lc req db = (Some (Response 200 (Books (map mapRow (select_all db)))), db)"
    by (simp add: get_api_books_def query_text)
  moreover have "sorted (map b_id (map mapRow (select_all db)))"
    unfolding select_all_def by (rule sorted_select)
  moreover have "mset (map mapRow (select_all db)) = mset (map mapRow (books db))"
    by (simp add: select_all_def)
  ultimately show "\<exists>bs. get_api_books lc req db = (Some (Response 200 (Books bs)), db)
               \<and> sorted (map b_id bs) \<and> mset bs = mset (map mapRow (books db))"
    by blast
next
  let ?t = "trim (or_empty qs)"
  let ?rows = "sort_key (\<lambda>r. sint (r_id r))
             (filter (\<lambda>r. lower_like lc (Some (r_title r)) (0x25 # q @ [0x25])
                            \<or> lower_like lc (r_author r) (0x25 # q @ [0x25])
                            \<or> lower_like lc (r_category r) (0x25 # q @ [0x25]))
                (books db))"
  assume ne: "q \<noteq> []" and "0 \<notin> set q"
  with assms have t: "?t \<noteq> []" "0 \<notin> set ?t" by (simp_all add: utf8_empty utf8_nul)
  from select_like_accepted[OF t(2), of lc db] assms(2)
  have "select_like lc (str ''%'' @ ?t @ str ''%'') db = (Inr ?rows, db)" by simp
  with t(1) assms(1) have "get_api_books lc req db = (Some (Response 200 (Books (map mapRow ?rows))), db)"
    by (simp add: get_api_books_def query_text Let_def)
  moreover have "sorted (map b_id (map mapRow ?rows))" by (rule sorted_select)
  moreover have "mset (map mapRow ?rows) = mset (filter (matches lc q) (map mapRow (books db)))"
    if "plain q"
  proof -
    have "filter (\<lambda>r. lower_like lc (Some (r_title r)) (0x25 # q @ [0x25])
                            \<or> lower_like lc (r_author r) (0x25 # q @ [0x25])
                            \<or> lower_like lc (r_category r) (0x25 # q @ [0x25])) (books db)
          = filter (\<lambda>r. matches lc q (mapRow r)) (books db)"
      using where_matches[OF that ne, of lc] by (intro filter_cong) auto
    then show ?thesis by (simp add: filter_map comp_def)
  qed
  ultimately show "\<exists>bs. get_api_books lc req db = (Some (Response 200 (Books bs)), db)
               \<and> sorted (map b_id bs)
               \<and> (plain q \<longrightarrow> mset bs = mset (filter (matches lc q) (map mapRow (books db))))"
    by blast
next
  let ?t = "trim (or_empty qs)"
  assume "0 \<in> set q"
  with assms have t: "0 \<in> set ?t" by (simp add: utf8_nul)
  then have "?t \<noteq> []" by auto
  with assms(1) select_like_refused[OF t, of lc db]
  show "get_api_books lc req db =
          (Some (Response 500 (ErrorMessage (DatabaseError data_exception))), db)"
    by (simp add: get_api_books_def query_text Let_def)
next
  have "sorted (map (\<lambda>r. sint (r_id r)) (select_all db))" "mset (select_all db) = mset (books db)"
    by (simp_all add: select_all_def)
  then show "\<exists>rs. get_api_books_part_000 req db = (Some (Response 200 (Rows rs)), db)
            \<and> sorted (map (\<lambda>r. sint (r_id r)) rs) \<and> mset rs = mset (books db)"
    by (simp add: get_api_books_part_000_def)
qed

text \<open>
  The claim as it was stated fails. In server.js the query \<open>_\<close> returns a book that
  has no underscore in its title, author or category (\<open>_\<close> stands for any character in
  \<open>like\<close>); the query of one space, or of one no-break space, which is not empty, is
  trimmed to the empty query and returns a book that has no such character in them; and
  the query of the character U+0000 is answered 500. The list of the second file returns
  a book in which the query \<open>xyz\<close> does not occur.
\<close>

theorem list_search_counterexample:
  "get_api_books ascii_lower (search_req (str ''_'')) (shelf dune) =
     (Some (Response 200 (Books [mapRow dune])), shelf dune)
   \<and> \<not> matches ascii_lower (str ''_'') (mapRow dune)
   \<and> get_api_books ascii_lower (search_req (str '' '')) (shelf dune) =
     (Some (Response 200 (Books [mapRow dune])), shelf dune)
   \<and> \<not> matches ascii_lower (str '' '') (mapRow dune)
   \<and> get_api_books ascii_lower (search_req [0xA0]) (shelf dune) =
     (Some (Response 200 (Books [mapRow dune])), shelf dune)
   \<and> \<not> matches ascii_lower [0xA0] (mapRow dune)
   \<and> get_api_books ascii_lower (search_req [0]) (shelf dune) =
     (Some (Response 500 (ErrorMessage (DatabaseError data_exception))), shelf dune)
   \<and> get_api_books_part_000 (search_req (str ''xyz'')) (shelf dune) =
     (Some (Response 200 (Rows [dune])), shelf dune)
   \<and> \<not> matches ascii_lower (str ''xyz'') (mapRow dune)"
  by (simp add: get_api_books_def get_api_books_part_000_def call_toString_def js_or_def
      trim_def is_space_def select_like_def select_all_def text_param_def utf8_def str_def
      lower_like_def lower_def lower_char_def like_special_def ascii_lower_def
      matches_def contains_ci_def mapRow_def or_empty_def sublist_code)

theorem list_search_witness:
  "get_api_books ascii_lower (search_req (str '' hER '')) (shelf dune) =
     (Some (Response 200 (Books [mapRow dune])), shelf dune)
   \<and> get_api_books ascii_lower (search_req (str ''xyz'')) (shelf dune) =
       (Some (Response 200 (Books [])), shelf dune)
   \<and> get_api_books ascii_lower (search_req [0xA0, 0x3000]) (shelf dune) =
     (Some (Response 200 (Books [mapRow dune])), shelf dune)
   \<and> get_api_books ascii_lower (search_req [0x44, 0]) (shelf dune) =
     (Some (Response 500 (ErrorMessage (DatabaseError data_exception))), shelf dune)"
proof -
  have q: "query_q (search_req s) = map_option JStr (Some s)" for s by simp
  have t: "str ''hER'' = utf8 (trim (or_empty (Some (str '' hER ''))))"
    "str ''xyz'' = utf8 (trim (or_empty (Some (str ''xyz''))))"
    "[] = utf8 (trim (or_empty (Some [0xA0, 0x3000])))"
    "[0x44, 0] = utf8 (trim (or_empty (Some [0x44, 0])))"
    by (simp_all add: trim_def or_empty_def is_space_def utf8_def str_def)
  have p: "plain (str ''hER'')" "plain (str ''xyz'')" "str ''hER'' \<noteq> []" "str ''xyz'' \<noteq> []"
    "0 \<notin> set (str ''hER'')" "0 \<notin> set (str ''xyz'')"
    by (simp_all add: plain_def str_def)
  have m: "matches ascii_lower (str ''hER'') (mapRow dune)"
    "\<not> matches ascii_lower (str ''xyz'') (mapRow dune)"
    by (simp_all add: matches_def contains_ci_def mapRow_def or_empty_def lower_def lower_char_def
        like_special_def ascii_lower_def str_def sublist_code)
  from list_search[OF q t(1), where db="shelf dune" and lc=ascii_lower] p(1,3,5)
  obtain bs where "get_api_books ascii_lower (search_req (str '' hER '')) (shelf dune) =
      (Some (Response 200 (Books bs)), shelf dune)"
    "mset bs = mset (filter (matches ascii_lower (str ''hER'')) (map mapRow (books (shelf dune))))"
    by auto
  with m(1) have 1: "get_api_books ascii_lower (search_req (str '' hER '')) (shelf dune) =
     (Some (Response 200 (Books [mapRow dune])), shelf dune)" by simp
  from list_search[OF q t(2), where db="shelf dune" and lc=ascii_lower] p(2,4,6)
  obtain bs where "get_api_books ascii_lower (search_req (str ''xyz'')) (shelf dune) =
      (Some (Response 200 (Books bs)), shelf dune)"
    "mset bs = mset (filter (matches ascii_lower (str ''xyz'')) (map mapRow (books (shelf dune))))"
    by auto
  with m(2) have 2: "get_api_books ascii_lower (search_req (str ''xyz'')) (shelf dune) =
      (Some (Response 200 (Books [])), shelf dune)"
    by simp
  from list_search[OF q t(3), where db="shelf dune" and lc=ascii_lower]
  obtain bs where "get_api_books ascii_lower (search_req [0xA0, 0x3000]) (shelf dune) =
      (Some (Response 200 (Books bs)), shelf dune)"
    "mset bs = mset (map mapRow (books (shelf dune)))"
    by auto
  then have 3: "get_api_books ascii_lower (search_req [0xA0, 0x3000]) (shelf dune) =
     (Some (Response 200 (Books [mapRow dune])), shelf dune)" by simp
  from list_search[OF q t(4), where db="shelf dune" and lc=ascii_lower]
  have 4: "get_api_books ascii_lower (search_req [0x44, 0]) (shelf dune) =
     (Some (Response 500 (ErrorMessage (DatabaseError data_exception))), shelf dune)" by simp
  from 1 2 3 4 show ?thesis by blast
qed

text \<open>
  Claim C7. Create fails with status 400 and stores nothing when the title is empty or
  absent, and otherwise stores and returns a new book with a fresh id, not borrowed, with
  author, category and description empty when they are not supplied. server.js does so
  (\<open>create_invalid\<close>, and \<open>create_valid\<close> for texts the store can read). The create
  of the second file has no check of the title: with the title \<open>""\<close> it stores a
  record with an empty title and answers 200; with no title the insert is rejected by the
  store and the handler sends no response at all.
\<close>

theorem create_part_000_accepts_empty_title:
  "post_api_books_part_000 None (\<lambda>j. []) empty_title_req empty_catalog =
     (Some (Response 200 (Row untitled)), shelf untitled)
   \<and> r_title untitled = []
   \<and> post_api_books_part_000 None (\<lambda>j. []) no_title_req empty_catalog =
     (None, \<lparr>books = [], books_id_seq = 2\<rparr>)
   \<and> post_api_books None (\<lambda>j. []) empty_title_req empty_catalog =
     (Some (Response 400 (Error ''title required'')), empty_catalog)
   \<and> post_api_books None (\<lambda>j. []) no_title_req empty_catalog =
     (Some (Response 400 (Error ''title required'')), empty_catalog)"
  by (simp add: post_api_books_part_000_def post_api_books_def okAdmin_def js_or_def
      body_field_def body_or_empty_def ADMIN_KEY_def default_empty_def insert_books_def
      with_text_def text_param_def utf8_def str_def empty_catalog_def empty_body_def Let_def)

text \<open>
  Claim C8, as amended. When the texts supplied for title, author, category and
  description have no character U+0000, an update of an existing id changes the supplied
  fields among them, each to the text supplied as the store receives it, and keeps every
  field that is not supplied (\<open>undefined\<close> or \<open>null\<close>); id, isBorrowed, borrower,
  borrowedAt and returnedAt stay as they were, and so does every other record; and an
  update of an id in the range of the column \<open>id\<close> that no record has answers 404
  \<open>not found\<close> and changes nothing. An update whose id is outside the range of the
  column, or with a supplied text that has the character U+0000, is answered 500 and
  changes nothing.
\<close>

theorem update_frame:
  assumes "supplied_key req = Some (JStr (ADMIN_KEY env))" "params_id req = Some i"
  shows "(sendable (supplied ser title req) \<and> sendable (supplied ser author req)
          \<and> sendable (supplied ser category req) \<and> sendable (supplied ser description req) \<longrightarrow>
            (in_int4 i \<longrightarrow> (\<forall>r \<in> set (books db). sint (r_id r) \<noteq> i) \<longrightarrow>
               put_api_books_id env ser req db = (Some (Response 404 (Error ''not found'')), db))
          \<and> (\<forall>r \<in> set (books db). distinct (map r_id (books db)) \<longrightarrow> sint (r_id r) = i \<longrightarrow>
               (\<exists>r'. put_api_books_id env ser req db =
                        (Some (Response 200 (Book (mapRow r'))), replace_row r r' db)
                   \<and> r_id r' = r_id r \<and> r_is_borrowed r' = r_is_borrowed r
                   \<and> r_borrower r' = r_borrower r \<and> r_borrowed_at r' = r_borrowed_at r
                   \<and> r_returned_at r' = r_returned_at r
                   \<and> (case supplied ser title req of
                         None \<Rightarrow> r_title r' = r_title r | Some v \<Rightarrow> r_title r' = utf8 v)
                   \<and> (case supplied ser author req of
                         None \<Rightarrow> r_author r' = r_author r | Some v \<Rightarrow> r_author r' = Some (utf8 v))
                   \<and> (case supplied ser category req of
                         None \<Rightarrow> r_category r' = r_category r | Some v \<Rightarrow> r_category r' = Some (utf8 v))
                   \<and> (case supplied ser description req of
                         None \<Rightarrow> r_description r' = r_description r
                       | Some v \<Rightarrow> r_description r' = Some (utf8 v)))))
       \<and> (\<not> (in_int4 i \<and> sendable (supplied ser title req) \<and> sendable (supplied ser author req)
              \<and> sendable (supplied ser category req) \<and> sendable (supplied ser description req)) \<longrightarrow>
            put_api_books_id env ser req db =
              (Some (Response 500 (ErrorMessage (DatabaseError data_exception))), db))"
proof (intro conjI impI ballI)
  assume "sendable (supplied ser title req) \<and> sendable (supplied ser author req)
          \<and> sendable (supplied ser category req) \<and> sendable (supplied ser description req)"
    "in_int4 i" "\<forall>r \<in> set (books db). sint (r_id r) \<noteq> i"
  with assms show "put_api_books_id env ser req db = (Some (Response 404 (Error ''not found'')), db)"
    by (intro update_not_found) simp_all
next
  fix r
  assume s: "sendable (supplied ser title req) \<and> sendable (supplied ser author req)
          \<and> sendable (supplied ser category req) \<and> sendable (supplied ser description req)"
    and r: "r \<in> set (books db)" "distinct (map r_id (books db))" "sint (r_id r) = i"
  let ?r' = "r\<lparr>r_title := (case supplied ser title req of None \<Rightarrow> r_title r | Some v \<Rightarrow> utf8 v),
           r_author := coalesce (map_option utf8 (supplied ser author req)) (r_author r),
           r_category := coalesce (map_option utf8 (supplied ser category req)) (r_category r),
           r_description := coalesce (map_option utf8 (supplied ser description req)) (r_description r)\<rparr>"
  have "put_api_books_id env ser req db = (Some (Response 200 (Book (mapRow ?r'))), replace_row r ?r' db)"
    using assms s r by (intro update_found) simp_all
  moreover have "r_id ?r' = r_id r \<and> r_is_borrowed ?r' = r_is_borrowed r
                \<and> r_borrower ?r' = r_borrower r \<and> r_borrowed_at ?r' = r_borrowed_at r
                \<and> r_returned_at ?r' = r_returned_at r" by simp
  moreover have "(case supplied ser title req of
                      None \<Rightarrow> r_title ?r' = r_title r | Some v \<Rightarrow> r_title ?r' = utf8 v)"
    by (simp split: option.splits)
  moreover have "(case supplied ser author req of
                      None \<Rightarrow> r_author ?r' = r_author r | Some v \<Rightarrow> r_author ?r' = Some (utf8 v))"
    by (simp add: coalesce_def split: option.splits)
  moreover have "(case supplied ser category req of
                      None \<Rightarrow> r_category ?r' = r_category r | Some v \<Rightarrow> r_category ?r' = Some (utf8 v))"
    by (simp add: coalesce_def split: option.splits)
  moreover have "(case supplied ser description req of
                      None \<Rightarrow> r_description ?r' = r_description r
                    | Some v \<Rightarrow> r_description ?r' = Some (utf8 v))"
    by (simp add: coalesce_def split: option.splits)
  ultimately show "\<exists>r'. put_api_books_id env ser req db =
                        (Some (Response 200 (Book (mapRow r'))), replace_row r r' db)
                   \<and> r_id r' = r_id r \<and> r_is_borrowed r' = r_is_borrowed r
                   \<and> r_borrower r' = r_borrower r \<and> r_borrowed_at r' = r_borrowed_at r
                   \<and> r_returned_at r' = r_returned_at r
                   \<and> (case supplied ser title req of
                         None \<Rightarrow> r_title r' = r_title r | Some v \<Rightarrow> r_title r' = utf8 v)
                   \<and> (case supplied ser author req of
                         None \<Rightarrow> r_author r' = r_author r | Some v \<Rightarrow> r_author r' = Some (utf8 v))
                   \<and> (case supplied ser category req of
                         None \<Rightarrow> r_category r' = r_category r | Some v \<Rightarrow> r_category r' = Some (utf8 v))
                   \<and> (case supplied ser description req of
                         None \<Rightarrow> r_description r' = r_description r
                       | Some v \<Rightarrow> r_description r' = Some (utf8 v))"
    by (intro exI[of _ ?r']) blast
next
  assume "\<not> (in_int4 i \<and> sendable (supplied ser title req) \<and> sendable (supplied ser author req)
              \<and> sendable (supplied ser category req) \<and> sendable (supplied ser description req))"
  with assms show "put_api_books_id env ser req db =
              (Some (Response 500 (ErrorMessage (DatabaseError data_exception))), db)"
    by (intro update_refused)
qed

text \<open>
  The claim as it was stated fails on server.js: an update of the id 2147483648, which no
  record has, is answered 500 and not 404; and an update of an existing id whose title is
  the character U+0000 is answered 500 and leaves the title as it was.
\<close>

theorem update_frame_counterexample:
  "\<not> (\<exists>r \<in> set (books (shelf dune_out)). sint (r_id r) = 2147483648)
   \<and> put_api_books_id None (\<lambda>j. []) big_id_req (shelf dune_out) =
       (Some (Response 500 (ErrorMessage (DatabaseError data_exception))), shelf dune_out)
   \<and> sint (r_id dune_out) = 1
   \<and> title (body_or_empty nul_title_req) = Some (JStr [0])
   \<and> put_api_books_id None (\<lambda>j. []) nul_title_req (shelf dune_out) =
       (Some (Response 500 (ErrorMessage (DatabaseError data_exception))), shelf dune_out)"
  by (simp add: put_api_books_id_def okAdmin_def js_or_def body_field_def body_or_empty_def
      ADMIN_KEY_def update_fields_def with_id_def in_int4_def with_text_def text_param_def
      str_def)

theorem update_frame_witness:
  "put_api_books_id None (\<lambda>j. []) retitle_req (shelf dune_out) =
     (Some (Response 200 (Book (mapRow dune_out_retitled))), shelf dune_out_retitled)
   \<and> put_api_books_id None (\<lambda>j. []) retitle_req empty_catalog =
     (Some (Response 404 (Error ''not found'')), empty_catalog)
   \<and> put_api_books_id None (\<lambda>j. []) big_id_req empty_catalog =
     (Some (Response 500 (ErrorMessage (DatabaseError data_exception))), empty_catalog)
   \<and> put_api_books_id None (\<lambda>j. []) nul_title_req (shelf dune_out) =
     (Some (Response 500 (ErrorMessage (DatabaseError data_exception))), shelf dune_out)"
proof -
  have k: "supplied_key retitle_req = Some (JStr (ADMIN_KEY None))"
    "supplied_key big_id_req = Some (JStr (ADMIN_KEY None))"
    "supplied_key nul_title_req = Some (JStr (ADMIN_KEY None))"
    by (simp_all add: supplied_key_def ADMIN_KEY_def str_empty)
  have id: "params_id retitle_req = Some 1" "params_id big_id_req = Some 2147483648"
    "params_id nul_title_req = Some 1" by simp_all
  have i: "in_int4 1" "\<not> in_int4 2147483648" by (simp_all add: in_int4_def)
  have s: "sendable (supplied (\<lambda>j. []) title retitle_req) \<and> sendable (supplied (\<lambda>j. []) author retitle_req)
          \<and> sendable (supplied (\<lambda>j. []) category retitle_req)
          \<and> sendable (supplied (\<lambda>j. []) description retitle_req)"
    by (simp add: supplied_def body_or_empty_def sendable_def str_def)
  have n: "\<not> sendable (supplied (\<lambda>j. []) title nul_title_req)"
    by (simp add: supplied_def body_or_empty_def sendable_def)
  have r: "dune_out \<in> set (books (shelf dune_out))" "distinct (map r_id (books (shelf dune_out)))"
    "sint (r_id dune_out) = 1" by simp_all
  have e: "\<forall>r \<in> set (books empty_catalog). sint (r_id r) \<noteq> 1" by (simp add: empty_catalog_def)
  from update_frame[OF k(1) id(1), where db=empty_catalog and ser="\<lambda>j. []"] s i(1) e
  have 1: "put_api_books_id None (\<lambda>j. []) retitle_req empty_catalog =
     (Some (Response 404 (Error ''not found'')), empty_catalog)" by blast
  from update_frame[OF k(2) id(2), where db=empty_catalog and ser="\<lambda>j. []"] i(2)
  have 2: "put_api_books_id None (\<lambda>j. []) big_id_req empty_catalog =
     (Some (Response 500 (ErrorMessage (DatabaseError data_exception))), empty_catalog)" by blast
  from update_frame[OF k(3) id(3), where db="shelf dune_out" and ser="\<lambda>j. []"] n
  have 3: "put_api_books_id None (\<lambda>j. []) nul_title_req (shelf dune_out) =
     (Some (Response 500 (ErrorMessage (DatabaseError data_exception))), shelf dune_out)" by blast
  from update_frame[OF k(1) id(1), where db="shelf dune_out" and ser="\<lambda>j. []"] s r
  obtain r' where o: "put_api_books_id None (\<lambda>j. []) retitle_req (shelf dune_out) =
                     (Some (Response 200 (Book (mapRow r'))), replace_row dune_out r' (shelf dune_out))"
    and f: "r_id r' = r_id dune_out" "r_is_borrowed r' = r_is_borrowed dune_out"
       "r_borrower r' = r_borrower dune_out" "r_borrowed_at r' = r_borrowed_at dune_out"
       "r_returned_at r' = r_returned_at dune_out"
    and t: "(case supplied (\<lambda>j. []) title retitle_req of
                      None \<Rightarrow> r_title r' = r_title dune_out | Some v \<Rightarrow> r_title r' = utf8 v)"
       "(case supplied (\<lambda>j. []) author retitle_req of
                      None \<Rightarrow> r_author r' = r_author dune_out | Some v \<Rightarrow> r_author r' = Some (utf8 v))"
       "(case supplied (\<lambda>j. []) category retitle_req of
                      None \<Rightarrow> r_category r' = r_category dune_out | Some v \<Rightarrow> r_category r' = Some (utf8 v))"
       "(case supplied (\<lambda>j. []) description retitle_req of
                      None \<Rightarrow> r_description r' = r_description dune_out
                    | Some v \<Rightarrow> r_description r' = Some (utf8 v))"
    by blast
  from f t have "r' = dune_out_retitled"
    by (cases r') (simp add: supplied_def body_or_empty_def utf8_def str_def)
  with o have "put_api_books_id None (\<lambda>j. []) retitle_req (shelf dune_out) =
     (Some (Response 200 (Book (mapRow dune_out_retitled))), shelf dune_out_retitled)"
    by (simp add: replace_row_def)
  with 1 2 3 show ?thesis by blast
qed

text \<open>
  Claim C9, as amended. In server.js every mutating operation (create, update, delete,
  borrow, return) takes the admin key from the header \<open>x-admin-key\<close>, else from the body
  field \<open>adminKey\<close>, else from the query parameter \<open>adminKey\<close>, a source that is
  absent or empty giving way to the next; it answers 401 \<open>unauthorized\<close> and changes
  nothing when that key is not the configured secret, and never answers 401 when it is.
  The second file (create, borrow, return) reads the key from the header only, with the
  same answer. The list of either file never answers 401.
\<close>

theorem admin_key_check:
  "(supplied_key req \<noteq> Some (JStr (ADMIN_KEY env)) \<longrightarrow>
       post_api_books env ser req db = (Some (Response 401 (Error ''unauthorized'')), db)
     \<and> put_api_books_id env ser req db = (Some (Response 401 (Error ''unauthorized'')), db)
     \<and> delete_api_books_id env req db = (Some (Response 401 (Error ''unauthorized'')), db)
     \<and> post_api_borrow_id env now req db = (Some (Response 401 (Error ''unauthorized'')), db)
     \<and> post_api_return_id env now req db = (Some (Response 401 (Error ''unauthorized'')), db))
   \<and> (supplied_key req = Some (JStr (ADMIN_KEY env)) \<longrightarrow>
       (\<forall>p. fst (post_api_books env ser req db) \<noteq> Some (Response 401 p))
     \<and> (\<forall>p. fst (put_api_books_id env ser req db) \<noteq> Some (Response 401 p))
     \<and> (\<forall>p. fst (delete_api_books_id env req db) \<noteq> Some (Response 401 p))
     \<and> (\<forall>p. fst (post_api_borrow_id env now req db) \<noteq> Some (Response 401 p))
     \<and> (\<forall>p. fst (post_api_return_id env now req db) \<noteq> Some (Response 401 p)))
   \<and> (x_admin_key req \<noteq> Some (ADMIN_KEY env) \<longrightarrow>
       post_api_books_part_000 env ser req db = (Some (Response 401 (Error ''unauthorized'')), db)
     \<and> post_api_borrow_id_part_000 env ser now req db = (Some (Response 401 (Error ''unauthorized'')), db)
     \<and> post_api_return_id_part_000 env now req db = (Some (Response 401 (Error ''unauthorized'')), db))
   \<and> (x_admin_key req = Some (ADMIN_KEY env) \<longrightarrow>
       (\<forall>p. fst (post_api_books_part_000 env ser req db) \<noteq> Some (Response 401 p))
     \<and> (\<forall>p. fst (post_api_borrow_id_part_000 env ser now req db) \<noteq> Some (Response 401 p))
     \<and> (\<forall>p. fst (post_api_return_id_part_000 env now req db) \<noteq> Some (Response 401 p)))
   \<and> (\<forall>p. fst (get_api_books lc req db) \<noteq> Some (Response 401 p))
   \<and> (\<forall>p. fst (get_api_books_part_000 req db) \<noteq> Some (Response 401 p))"
  by (intro conjI impI allI)
     (simp_all add: unauthorized_handlers authorized_create authorized_update authorized_delete
        authorized_borrow authorized_return header_part_000 authorized_part_000 list_no_key)

text \<open>
  The claim as it was stated fails on the second file: a request whose key is in the body
  and not in the header has the configured secret as its key by the stated precedence, and
  is answered 401.
\<close>

theorem admin_key_check_counterexample:
  "supplied_key body_key_req = Some (JStr (ADMIN_KEY None))
   \<and> post_api_books_part_000 None (\<lambda>j. []) body_key_req empty_catalog =
       (Some (Response 401 (Error ''unauthorized'')), empty_catalog)
   \<and> post_api_borrow_id_part_000 None (\<lambda>j. []) 5 body_key_req (shelf dune) =
       (Some (Response 401 (Error ''unauthorized'')), shelf dune)"
  by (simp add: supplied_key_def body_field_def ADMIN_KEY_def str_def
      post_api_books_part_000_def post_api_borrow_id_part_000_def)

theorem admin_key_check_witness:
  "supplied_key body_key_req = Some (JStr (ADMIN_KEY None))
   \<and> (\<forall>p. fst (post_api_books None (\<lambda>j. []) body_key_req empty_catalog) \<noteq> Some (Response 401 p))
   \<and> supplied_key wrong_header_req \<noteq> Some (JStr (ADMIN_KEY None))
   \<and> post_api_borrow_id None 5 wrong_header_req (shelf dune) =
        (Some (Response 401 (Error ''unauthorized'')), shelf dune)
   \<and> x_admin_key admin_req = Some (ADMIN_KEY None)
   \<and> (\<forall>p. fst (post_api_return_id_part_000 None 5 admin_req (shelf dune)) \<noteq> Some (Response 401 p))
   \<and> x_admin_key body_key_req \<noteq> Some (ADMIN_KEY None)
   \<and> post_api_books_part_000 None (\<lambda>j. []) body_key_req empty_catalog =
        (Some (Response 401 (Error ''unauthorized'')), empty_catalog)"
proof -
  have a: "supplied_key body_key_req = Some (JStr (ADMIN_KEY None))"
    by (simp add: supplied_key_def body_field_def ADMIN_KEY_def str_def)
  have b: "supplied_key wrong_header_req \<noteq> Some (JStr (ADMIN_KEY None))"
    by (simp add: supplied_key_def ADMIN_KEY_def str_def)
  have c: "x_admin_key admin_req = Some (ADMIN_KEY None)" by (simp add: ADMIN_KEY_def)
  have d: "x_admin_key body_key_req \<noteq> Some (ADMIN_KEY None)" by simp
  from admin_key_check[where req=body_key_req and env=None and ser="\<lambda>j. []" and db=empty_catalog] a d
  have 1: "\<forall>p. fst (post_api_books None (\<lambda>j. []) body_key_req empty_catalog) \<noteq> Some (Response 401 p)"
    and 2: "post_api_books_part_000 None (\<lambda>j. []) body_key_req empty_catalog =
        (Some (Response 401 (Error ''unauthorized'')), empty_catalog)"
    by blast+
  from admin_key_check[where req=wrong_header_req and env=None and now=5 and db="shelf dune"] b
  have 3: "post_api_borrow_id None 5 wrong_header_req (shelf dune) =
        (Some (Response 401 (Error ''unauthorized'')), shelf dune)" by blast
  from admin_key_check[where req=admin_req and env=None and now=5 and db="shelf dune"] c
  have 4: "\<forall>p. fst (post_api_return_id_part_000 None 5 admin_req (shelf dune)) \<noteq> Some (Response 401 p)"
    by blast
  from a b c d 1 2 3 4 show ?thesis by blast
qed

text \<open>
  Claim C10. In server.js a mutating request whose admin key is not the configured secret
  is answered with 401 before anything else: whatever the body holds (a create without a
  title too) the response is the 401 and the store, its sequence included, is unchanged.
\<close>

theorem unauthorized_first:
  assumes "supplied_key req \<noteq> Some (JStr (ADMIN_KEY env))"
  shows "post_api_books env ser req db = (Some (Response 401 (Error ''unauthorized'')), db)
       \<and> put_api_books_id env ser req db = (Some (Response 401 (Error ''unauthorized'')), db)
       \<and> delete_api_books_id env req db = (Some (Response 401 (Error ''unauthorized'')), db)
       \<and> post_api_borrow_id env now req db = (Some (Response 401 (Error ''unauthorized'')), db)
       \<and> post_api_return_id env now req db = (Some (Response 401 (Error ''unauthorized'')), db)"
  using assms
  by (simp add: post_api_books_def put_api_books_id_def delete_api_books_id_def
      post_api_borrow_id_def post_api_return_id_def okAdmin_eq unauthorized_def)

theorem unauthorized_first_witness:
  "supplied_key anon_req \<noteq> Some (JStr (ADMIN_KEY None))
   \<and> title (body_or_empty anon_req) = None
   \<and> post_api_books None (\<lambda>j. []) anon_req empty_catalog =
       (Some (Response 401 (Error ''unauthorized'')), empty_catalog)
   \<and> post_api_borrow_id None 5 anon_req (shelf dune) =
       (Some (Response 401 (Error ''unauthorized'')), shelf dune)"
proof -
  have h: "supplied_key anon_req \<noteq> Some (JStr (ADMIN_KEY None))"
    by (simp add: supplied_key_def body_field_def empty_body_def)
  have t: "title (body_or_empty anon_req) = None"
    by (simp add: body_or_empty_def empty_body_def)
  from unauthorized_first[OF h] h t show ?thesis by blast
qed

end
